theory Spec2Isabelle
  imports Complex_Main "HOL-Library.Stream"
begin

section \<open>Conventions of the embedding\<close>

text \<open>
  The avionics simulator is a single-threaded C++ program made of four classes:
  \<^verbatim>\<open>FaultHandler\<close>, \<^verbatim>\<open>FlightController\<close>, \<^verbatim>\<open>SensorProcessor\<close> and
  \<^verbatim>\<open>SystemMonitor\<close>.  Every class becomes a record of its private fields and every
  member function a function that takes the object and returns the updated object.

  \<^item> A \<^verbatim>\<open>double\<close> is modelled as a \<^typ>\<open>real\<close> and the arithmetic is exact: infinities
    and NaN are outside the model, and so is rounding, except for the moving-average
    filter, which is modelled a second time with every operation rounded as IEEE 754
    binary64 prescribes, for the one property that is about exact equality of a computed
    value.
  \<^item> An \<^verbatim>\<open>int\<close> is modelled as an \<^typ>\<open>int\<close> together with the bound \<open>INT_MAX\<close>; an
    increment at \<open>INT_MAX\<close> is undefined behaviour in C++ and is the result
    \<open>Inl SignedOverflow\<close> of the model.
  \<^item> \<^verbatim>\<open>std::chrono::steady_clock::now()\<close> is an input: the reading (in nanoseconds) is
    passed to the member function that asks for it.  The wall-clock time stamp that
    \<^verbatim>\<open>reportFault\<close> stores in a fault record is written and never read by the program;
    the field is left out.
  \<^item> The random source (\<^verbatim>\<open>rng_\<close> with \<^verbatim>\<open>noiseDist_\<close>) is the stream of the standard
    normal draws it is going to return; a draw takes the head of the stream.
  \<^item> Text written to \<^verbatim>\<open>std::cout\<close> is kept only for the flight controller (field
    \<open>console\<close>); the other classes' console messages are not part of the model.
\<close>

subsection \<open>Undefined behaviour as an error value\<close>

datatype error = SignedOverflow | DivisionByZero | ConversionOutOfRange

definition INT_MAX :: int where
  "INT_MAX = 2147483647"

definition ebind :: "error + 'a \<Rightarrow> ('a \<Rightarrow> error + 'b) \<Rightarrow> error + 'b" where
  "ebind m f = (case m of Inl e \<Rightarrow> Inl e | Inr x \<Rightarrow> f x)"

text \<open>\<^verbatim>\<open>n++\<close> on an \<^verbatim>\<open>int\<close>.\<close>

definition increment :: "int \<Rightarrow> error + int" where
  "increment n = (if n = INT_MAX then Inl SignedOverflow else Inr (n + 1))"

section \<open>FaultHandler\<close>

datatype FaultSeverity = INFO | WARNING | CRITICAL | FATAL

record FaultRecord =
  severity :: FaultSeverity
  component :: string
  description :: string
  resolved :: bool

record FaultHandler =
  faults :: "FaultRecord list"
  criticalFaultCount :: int
  warningFaultCount :: int

text \<open>The constructor and \<^verbatim>\<open>initialize()\<close>.\<close>

definition FaultHandler_new :: FaultHandler where
  "FaultHandler_new = \<lparr>faults = [], criticalFaultCount = 0, warningFaultCount = 0\<rparr>"

definition fh_initialize :: "FaultHandler \<Rightarrow> FaultHandler" where
  "fh_initialize fh = fh\<lparr>faults := [], criticalFaultCount := 0, warningFaultCount := 0\<rparr>"

text \<open>
  \<^verbatim>\<open>reportFault\<close>: the record is pushed first, then the counter that matches the severity
  is incremented (none for INFO).
\<close>

definition reportFault ::
  "FaultSeverity \<Rightarrow> string \<Rightarrow> string \<Rightarrow> FaultHandler \<Rightarrow> error + FaultHandler" where
  "reportFault sev cmp dsc fh =
     (let fault = \<lparr>severity = sev, component = cmp, description = dsc, resolved = False\<rparr>;
          fh1 = fh\<lparr>faults := faults fh @ [fault]\<rparr>
      in if sev = CRITICAL \<or> sev = FATAL then
           ebind (increment (criticalFaultCount fh1))
             (\<lambda>c. Inr (fh1\<lparr>criticalFaultCount := c\<rparr>))
         else if sev = WARNING then
           ebind (increment (warningFaultCount fh1))
             (\<lambda>c. Inr (fh1\<lparr>warningFaultCount := c\<rparr>))
         else Inr fh1)"

definition isInRange :: "real \<Rightarrow> real \<Rightarrow> real \<Rightarrow> bool" where
  "isInRange v lo hi = (v \<ge> lo \<and> v \<le> hi)"

text \<open>An \<^verbatim>\<open>if (c) reportFault(...)\<close> statement.\<close>

definition report_when ::
  "bool \<Rightarrow> FaultSeverity \<Rightarrow> string \<Rightarrow> string \<Rightarrow> FaultHandler \<Rightarrow> error + FaultHandler" where
  "report_when c sev cmp dsc fh = (if c then reportFault sev cmp dsc fh else Inr fh)"

definition checkSensorHealth ::
  "real \<Rightarrow> real \<Rightarrow> real \<Rightarrow> bool \<Rightarrow> FaultHandler \<Rightarrow> error + FaultHandler" where
  "checkSensorHealth alt spd prs sensorValid fh =
     (if \<not> sensorValid then
        reportFault CRITICAL ''SensorProcessor'' ''Sensor fault detected - invalid data'' fh
      else
        ebind (report_when (\<not> isInRange alt (- 500) 15000) WARNING ''AltitudeSensor''
                 ''Altitude reading out of expected range'' fh) (\<lambda>fh1.
        ebind (report_when (\<not> isInRange spd 0 300) WARNING ''AirspeedSensor''
                 ''Airspeed reading out of expected range'' fh1) (\<lambda>fh2.
        ebind (report_when (\<not> isInRange prs 100 1100) WARNING ''PressureSensor''
                 ''Pressure reading out of expected range'' fh2) (\<lambda>fh3.
        report_when (alt < 0 \<and> spd > 50) FATAL ''FlightSystem''
                 ''Critical: Negative altitude with high airspeed'' fh3))))"

definition checkControlSystem ::
  "real \<Rightarrow> real \<Rightarrow> real \<Rightarrow> FaultHandler \<Rightarrow> error + FaultHandler" where
  "checkControlSystem elev ail rud fh =
     ebind (report_when (\<bar>elev\<bar> > 0.95) WARNING ''ElevatorControl''
              ''Elevator near saturation limit'' fh) (\<lambda>fh1.
     ebind (report_when (\<bar>ail\<bar> > 0.95) WARNING ''AileronControl''
              ''Aileron near saturation limit'' fh1) (\<lambda>fh2.
     report_when (\<bar>rud\<bar> > 0.95) WARNING ''RudderControl''
              ''Rudder near saturation limit'' fh2))"

definition getActiveFaults :: "FaultHandler \<Rightarrow> FaultRecord list" where
  "getActiveFaults fh = filter (\<lambda>fault. \<not> resolved fault) (faults fh)"

definition isSystemSafe :: "FaultHandler \<Rightarrow> bool" where
  "isSystemSafe fh = (criticalFaultCount fh = 0)"

definition getFaultCount :: "FaultSeverity \<Rightarrow> FaultHandler \<Rightarrow> nat" where
  "getFaultCount sev fh =
     length (filter (\<lambda>fault. severity fault = sev \<and> \<not> resolved fault) (faults fh))"

definition clearResolvedFaults :: "FaultHandler \<Rightarrow> FaultHandler" where
  "clearResolvedFaults fh = fh\<lparr>faults := filter (\<lambda>fault. \<not> resolved fault) (faults fh)\<rparr>"

subsection \<open>Sequences of public operations\<close>

datatype fh_op =
    Initialize
  | ReportFault FaultSeverity string string
  | CheckSensorHealth real real real bool
  | CheckControlSystem real real real
  | GetActiveFaults
  | IsSystemSafe
  | GetFaultCount FaultSeverity
  | ClearResolvedFaults

fun fh_apply :: "fh_op \<Rightarrow> FaultHandler \<Rightarrow> error + FaultHandler" where
  "fh_apply Initialize fh = Inr (fh_initialize fh)"
| "fh_apply (ReportFault sev cmp dsc) fh = reportFault sev cmp dsc fh"
| "fh_apply (CheckSensorHealth alt spd prs v) fh = checkSensorHealth alt spd prs v fh"
| "fh_apply (CheckControlSystem e a r) fh = checkControlSystem e a r fh"
| "fh_apply GetActiveFaults fh = Inr fh"
| "fh_apply IsSystemSafe fh = Inr fh"
| "fh_apply (GetFaultCount sev) fh = Inr fh"
| "fh_apply ClearResolvedFaults fh = Inr (clearResolvedFaults fh)"

fun fh_run :: "fh_op list \<Rightarrow> FaultHandler \<Rightarrow> error + FaultHandler" where
  "fh_run [] fh = Inr fh"
| "fh_run (c # ops) fh = ebind (fh_apply c fh) (fh_run ops)"

text \<open>
  What the claim about \<^verbatim>\<open>isSystemSafe\<close> calls "reported and not yet cleared", read off
  the sequence of calls alone: the number of CRITICAL or FATAL reports a call issues,
  added up since the last \<^verbatim>\<open>initialize()\<close> (the only call that empties the log).
\<close>

definition is_critical :: "FaultSeverity \<Rightarrow> bool" where
  "is_critical sev = (sev = CRITICAL \<or> sev = FATAL)"

fun critical_reports :: "fh_op \<Rightarrow> nat" where
  "critical_reports (ReportFault sev cmp dsc) = (if is_critical sev then 1 else 0)"
| "critical_reports (CheckSensorHealth alt spd prs v) =
     (if \<not> v then 1 else if alt < 0 \<and> spd > 50 then 1 else 0)"
| "critical_reports _ = 0"

fun pending_critical :: "nat \<Rightarrow> fh_op list \<Rightarrow> nat" where
  "pending_critical n [] = n"
| "pending_critical n (Initialize # ops) = pending_critical 0 ops"
| "pending_critical n (c # ops) = pending_critical (n + critical_reports c) ops"

section \<open>FlightController\<close>

datatype FlightPhase =
  PREFLIGHT | TAKEOFF | CLIMB | CRUISE | DESCENT | APPROACH | LANDING | EMERGENCY

record ControlSurfaces =
  elevator :: real
  aileron :: real
  rudder :: real
  throttle :: real

record FlightController =
  currentPhase :: FlightPhase
  previousPhase :: FlightPhase
  controls :: ControlSurfaces
  phaseStartTime :: int
  console :: "string list"

fun getPhaseString :: "FlightPhase \<Rightarrow> string" where
  "getPhaseString PREFLIGHT = ''PREFLIGHT''"
| "getPhaseString TAKEOFF = ''TAKEOFF''"
| "getPhaseString CLIMB = ''CLIMB''"
| "getPhaseString CRUISE = ''CRUISE''"
| "getPhaseString DESCENT = ''DESCENT''"
| "getPhaseString APPROACH = ''APPROACH''"
| "getPhaseString LANDING = ''LANDING''"
| "getPhaseString EMERGENCY = ''EMERGENCY''"

text \<open>The constructor and \<^verbatim>\<open>initialize()\<close>; \<open>now\<close> is the reading of the steady clock.\<close>

definition FlightController_new :: "int \<Rightarrow> FlightController" where
  "FlightController_new now =
     \<lparr>currentPhase = PREFLIGHT, previousPhase = PREFLIGHT,
      controls = \<lparr>elevator = 0, aileron = 0, rudder = 0, throttle = 0\<rparr>,
      phaseStartTime = now, console = []\<rparr>"

definition fc_initialize :: "int \<Rightarrow> FlightController \<Rightarrow> FlightController" where
  "fc_initialize now fc =
     fc\<lparr>console := console fc @ [''[FlightController] Initializing flight control system...''],
        currentPhase := PREFLIGHT,
        phaseStartTime := now,
        controls := \<lparr>elevator = 0, aileron = 0, rudder = 0, throttle = 0\<rparr>\<rparr>"

definition getCurrentPhase :: "FlightController \<Rightarrow> FlightPhase" where
  "getCurrentPhase fc = currentPhase fc"

definition getControlSurfaces :: "FlightController \<Rightarrow> ControlSurfaces" where
  "getControlSurfaces fc = controls fc"

definition transitionToPhase :: "int \<Rightarrow> FlightPhase \<Rightarrow> FlightController \<Rightarrow> FlightController" where
  "transitionToPhase now newPhase fc =
     (if newPhase \<noteq> currentPhase fc then
        fc\<lparr>previousPhase := currentPhase fc,
           currentPhase := newPhase,
           phaseStartTime := now,
           console := console fc @
             [''[FlightController] Phase transition: '' @ getPhaseString (currentPhase fc)
                @ '' -> '' @ getPhaseString newPhase]\<rparr>
      else fc)"

text \<open>
  The dwell time of the current phase in whole seconds:
  \<^verbatim>\<open>duration_cast<seconds>(steady_clock::now() - phaseStartTime_).count()\<close>, which
  truncates towards zero.
\<close>

definition elapsed_seconds :: "int \<Rightarrow> FlightController \<Rightarrow> int" where
  "elapsed_seconds now fc =
     (let d = now - phaseStartTime fc
      in if d \<ge> 0 then d div 1000000000 else - ((- d) div 1000000000))"

text \<open>\<^verbatim>\<open>std::clamp(v, lo, hi)\<close>.\<close>

definition clamp :: "real \<Rightarrow> real \<Rightarrow> real \<Rightarrow> real" where
  "clamp v lo hi = (if v < lo then lo else if hi < v then hi else v)"

definition set_targets :: "real \<Rightarrow> real \<Rightarrow> ControlSurfaces \<Rightarrow> ControlSurfaces" where
  "set_targets thr elev c = c\<lparr>throttle := thr, elevator := elev\<rparr>"

definition updateControlSurfaces ::
  "real \<Rightarrow> real \<Rightarrow> real \<Rightarrow> FlightController \<Rightarrow> FlightController" where
  "updateControlSurfaces alt spd vs fc =
     (let c1 = (case currentPhase fc of
                  PREFLIGHT \<Rightarrow> set_targets 0.0 0.0 (controls fc)
                | TAKEOFF \<Rightarrow> set_targets 1.0 0.15 (controls fc)
                | CLIMB \<Rightarrow> set_targets 0.9 0.1 (controls fc)
                | CRUISE \<Rightarrow> set_targets 0.7 0.0 (controls fc)
                | DESCENT \<Rightarrow> set_targets 0.4 (- 0.05) (controls fc)
                | APPROACH \<Rightarrow> set_targets 0.3 (- 0.08) (controls fc)
                | LANDING \<Rightarrow> set_targets 0.1 (- 0.1) (controls fc)
                | EMERGENCY \<Rightarrow> set_targets 0.5 0.0 (controls fc));
          c2 = c1\<lparr>elevator := clamp (elevator c1) (- 1.0) 1.0\<rparr>;
          c3 = c2\<lparr>aileron := clamp (aileron c2) (- 1.0) 1.0\<rparr>;
          c4 = c3\<lparr>rudder := clamp (rudder c3) (- 1.0) 1.0\<rparr>;
          c5 = c4\<lparr>throttle := clamp (throttle c4) 0.0 1.0\<rparr>
      in fc\<lparr>controls := c5\<rparr>)"

text \<open>
  \<^verbatim>\<open>update(altitude, airspeed, verticalSpeed)\<close>; \<open>now\<close> is the reading of the steady clock
  during the call.  The PREFLIGHT guard of the source reads
  \<^verbatim>\<open>airspeed > 5.0 && throttle > 0.5\<close>.  The function has no parameter or local variable
  \<^verbatim>\<open>throttle\<close> and the class has no such member; the only \<^verbatim>\<open>throttle\<close> declared under the
  source tree is the field of \<^verbatim>\<open>ControlSurfaces\<close>, and the only object of that type the
  function can reach is the member \<^verbatim>\<open>controls_\<close>.  The guard therefore reads
  \<^verbatim>\<open>controls_.throttle\<close>, the throttle the controller commanded in its previous call,
  which is what the specification calls the commanded throttle.
\<close>

definition update ::
  "int \<Rightarrow> real \<Rightarrow> real \<Rightarrow> real \<Rightarrow> FlightController \<Rightarrow> FlightController" where
  "update now alt spd vs fc =
     updateControlSurfaces alt spd vs
       (case currentPhase fc of
          PREFLIGHT \<Rightarrow>
            if spd > 5.0 \<and> throttle (controls fc) > 0.5
            then transitionToPhase now TAKEOFF fc else fc
        | TAKEOFF \<Rightarrow>
            if alt > 100.0 \<and> vs > 2.0 then transitionToPhase now CLIMB fc else fc
        | CLIMB \<Rightarrow>
            if alt > 3000.0 \<and> \<bar>vs\<bar> < 1.0 then transitionToPhase now CRUISE fc else fc
        | CRUISE \<Rightarrow>
            if elapsed_seconds now fc > 60 \<and> vs < - 1.0
            then transitionToPhase now DESCENT fc else fc
        | DESCENT \<Rightarrow>
            if alt < 500.0 \<and> spd < 80.0 then transitionToPhase now APPROACH fc else fc
        | APPROACH \<Rightarrow>
            if alt < 50.0 then transitionToPhase now LANDING fc else fc
        | LANDING \<Rightarrow> fc
        | EMERGENCY \<Rightarrow> fc)"

definition triggerEmergency :: "int \<Rightarrow> string \<Rightarrow> FlightController \<Rightarrow> FlightController" where
  "triggerEmergency now reason fc =
     fc\<lparr>console := console fc @ [''[FlightController] EMERGENCY TRIGGERED: '' @ reason],
        previousPhase := currentPhase fc,
        currentPhase := EMERGENCY,
        phaseStartTime := now\<rparr>"

subsection \<open>Sequences of public operations\<close>

datatype fc_op =
    FcInitialize int
  | FcUpdate int real real real
  | FcTriggerEmergency int string

fun fc_apply :: "fc_op \<Rightarrow> FlightController \<Rightarrow> FlightController" where
  "fc_apply (FcInitialize now) fc = fc_initialize now fc"
| "fc_apply (FcUpdate now alt spd vs) fc = update now alt spd vs fc"
| "fc_apply (FcTriggerEmergency now reason) fc = triggerEmergency now reason fc"

fun fc_run :: "fc_op list \<Rightarrow> FlightController \<Rightarrow> FlightController" where
  "fc_run [] fc = fc"
| "fc_run (c # ops) fc = fc_run ops (fc_apply c fc)"

text \<open>What a client can read from the controller: the two getters.\<close>

definition observe :: "FlightController \<Rightarrow> FlightPhase \<times> ControlSurfaces" where
  "observe fc = (getCurrentPhase fc, getControlSurfaces fc)"

definition surfaces_in_range :: "ControlSurfaces \<Rightarrow> bool" where
  "surfaces_in_range c =
     (- 1.0 \<le> elevator c \<and> elevator c \<le> 1.0 \<and>
      - 1.0 \<le> aileron c \<and> aileron c \<le> 1.0 \<and>
      - 1.0 \<le> rudder c \<and> rudder c \<le> 1.0 \<and>
      0.0 \<le> throttle c \<and> throttle c \<le> 1.0)"





section \<open>SensorProcessor\<close>

record SensorData =
  altitude :: real
  airspeed :: real
  pressure :: real
  temperature :: real
  verticalSpeed :: real
  valid :: bool

record SensorProcessor =
  rng :: "real stream"
  altitudeHistory :: "real list"
  airspeedHistory :: "real list"
  altitudeFault :: bool
  airspeedFault :: bool
  pressureFault :: bool

definition FILTER_WINDOW_SIZE :: nat where
  "FILTER_WINDOW_SIZE = 5"

text \<open>The constructor takes the draws the seeded generator will produce.\<close>

definition SensorProcessor_new :: "real stream \<Rightarrow> SensorProcessor" where
  "SensorProcessor_new draws =
     \<lparr>rng = draws, altitudeHistory = [], airspeedHistory = [],
      altitudeFault = False, airspeedFault = False, pressureFault = False\<rparr>"

definition sp_initialize :: "SensorProcessor \<Rightarrow> SensorProcessor" where
  "sp_initialize sp =
     sp\<lparr>altitudeHistory := [], airspeedHistory := [],
        altitudeFault := False, airspeedFault := False, pressureFault := False\<rparr>"

definition injectFault :: "bool \<Rightarrow> bool \<Rightarrow> bool \<Rightarrow> SensorProcessor \<Rightarrow> SensorProcessor" where
  "injectFault af sf pf sp = sp\<lparr>altitudeFault := af, airspeedFault := sf, pressureFault := pf\<rparr>"

definition areSensorsHealthy :: "SensorProcessor \<Rightarrow> bool" where
  "areSensorsHealthy sp = (\<not> altitudeFault sp \<and> \<not> airspeedFault sp \<and> \<not> pressureFault sp)"

text \<open>\<^verbatim>\<open>noiseDist_(rng_)\<close>: the next draw, and the generator advanced.\<close>

definition draw :: "SensorProcessor \<Rightarrow> real \<times> SensorProcessor" where
  "draw sp = (shd (rng sp), sp\<lparr>rng := stl (rng sp)\<rparr>)"

text \<open>
  \<^verbatim>\<open>applyFilter\<close> works on the deque passed by reference: it returns the new deque and
  the mean.  \<^verbatim>\<open>std::accumulate\<close> adds from the left, starting at \<open>0.0\<close>.
\<close>

definition applyFilter :: "real list \<Rightarrow> real \<Rightarrow> real list \<times> real" where
  "applyFilter history newValue =
     (let h1 = history @ [newValue];
          h2 = (if length h1 > FILTER_WINDOW_SIZE then tl h1 else h1);
          total = foldl (+) 0.0 h2
      in (h2, total / real (length h2)))"

definition simulateAltitude :: "real \<Rightarrow> SensorProcessor \<Rightarrow> real \<times> SensorProcessor" where
  "simulateAltitude time sp =
     (if altitudeFault sp then (- 999.0, sp)
      else
        let alt = (if time < 20.0 then 0.0
                   else if time < 50.0 then 5.0 * (time - 20.0) * (time - 20.0)
                   else if time < 150.0 then 3000.0 + 50.0 * sin (time * 0.1)
                   else if time < 200.0 then 3000.0 - 15.0 * (time - 150.0)
                   else max 0.0 (2250.0 - 10.0 * (time - 200.0)));
            (d, sp1) = draw sp;
            noise = d * 2.0
        in (max 0.0 (alt + noise), sp1))"

definition simulateAirspeed :: "real \<Rightarrow> SensorProcessor \<Rightarrow> real \<times> SensorProcessor" where
  "simulateAirspeed time sp =
     (if airspeedFault sp then (- 999.0, sp)
      else
        let spd = (if time < 15.0 then 0.0
                   else if time < 25.0 then 8.0 * (time - 15.0)
                   else if time < 50.0 then 80.0 + (time - 25.0) * 0.8
                   else if time < 150.0 then 100.0 + 10.0 * sin (time * 0.05)
                   else if time < 200.0 then 95.0
                   else max 0.0 (95.0 - 3.0 * (time - 200.0)));
            (d, sp1) = draw sp;
            noise = d * 1.5
        in (max 0.0 (spd + noise), sp1))"

definition simulatePressure :: "real \<Rightarrow> SensorProcessor \<Rightarrow> real \<times> SensorProcessor" where
  "simulatePressure alt sp =
     (if pressureFault sp then (- 999.0, sp)
      else
        let P0 = 1013.25;
            H = 8500.0;
            prs = P0 * exp (- alt / H);
            (d, sp1) = draw sp;
            noise = d * 0.5
        in (prs + noise, sp1))"

definition simulateTemperature :: "real \<Rightarrow> SensorProcessor \<Rightarrow> real \<times> SensorProcessor" where
  "simulateTemperature alt sp =
     (let T0 = 15.0;
          lapseRate = 0.0065;
          temp = T0 - (lapseRate * alt);
          (d, sp1) = draw sp;
          noise = d * 0.3
      in (temp + noise, sp1))"

definition processSensors :: "real \<Rightarrow> SensorProcessor \<Rightarrow> SensorData \<times> SensorProcessor" where
  "processSensors time sp =
     (let (rawAltitude, sp1) = simulateAltitude time sp;
          (rawAirspeed, sp2) = simulateAirspeed time sp1;
          (ah, alt) = applyFilter (altitudeHistory sp2) rawAltitude;
          sp3 = sp2\<lparr>altitudeHistory := ah\<rparr>;
          (sh, spd) = applyFilter (airspeedHistory sp3) rawAirspeed;
          sp4 = sp3\<lparr>airspeedHistory := sh\<rparr>;
          (prs, sp5) = simulatePressure alt sp4;
          (temp, sp6) = simulateTemperature alt sp5;
          h = altitudeHistory sp6;
          vs = (if length h \<ge> 2 then (last h - h ! (length h - 2)) * 10.0 else 0.0);
          ok = (\<not> altitudeFault sp6 \<and> \<not> airspeedFault sp6 \<and> \<not> pressureFault sp6)
      in (\<lparr>altitude = alt, airspeed = spd, pressure = prs, temperature = temp,
           verticalSpeed = vs, valid = ok\<rparr>, sp6))"

text \<open>
  A run of \<^verbatim>\<open>processSensors\<close> calls at the given simulation times: the telemetry of
  every call, in order, and the processor after the last one.
\<close>

fun process_all :: "real list \<Rightarrow> SensorProcessor \<Rightarrow> SensorData list \<times> SensorProcessor" where
  "process_all [] sp = ([], sp)"
| "process_all (t # ts) sp =
     (let (d, sp1) = processSensors t sp;
          (ds, sp2) = process_all ts sp1
      in (d # ds, sp2))"

text \<open>The filter alone, fed a list of samples: the outputs in order.\<close>

fun filter_all :: "real list \<Rightarrow> real list \<Rightarrow> real list" where
  "filter_all history [] = []"
| "filter_all history (x # xs) =
     (let (h, y) = applyFilter history x in y # filter_all h xs)"

section \<open>TelemetryLogger and SystemMonitor\<close>

text \<open>
  The logger is a sink: the rows of the telemetry file and the lines of the event file,
  without their wall-clock time stamps.  A row or a line is written only while the file
  is open.
\<close>

record Snapshot =
  snap_time :: real
  snap_sensors :: SensorData
  snap_phase :: FlightPhase
  snap_controls :: ControlSurfaces
  snap_faults :: int

record TelemetryLogger =
  telemetryOpen :: bool
  eventOpen :: bool
  telemetryLog :: "Snapshot list"
  eventLog :: "string list"

definition TelemetryLogger_new :: TelemetryLogger where
  "TelemetryLogger_new =
     \<lparr>telemetryOpen = False, eventOpen = False, telemetryLog = [], eventLog = []\<rparr>"

definition logData ::
  "real \<Rightarrow> SensorData \<Rightarrow> FlightPhase \<Rightarrow> ControlSurfaces \<Rightarrow> int \<Rightarrow> TelemetryLogger
     \<Rightarrow> TelemetryLogger" where
  "logData time sensors phase ctl activeFaults lg =
     (if \<not> telemetryOpen lg then lg
      else lg\<lparr>telemetryLog := telemetryLog lg @
             [\<lparr>snap_time = time, snap_sensors = sensors, snap_phase = phase,
               snap_controls = ctl, snap_faults = activeFaults\<rparr>]\<rparr>)"

definition logEvent :: "string \<Rightarrow> TelemetryLogger \<Rightarrow> TelemetryLogger" where
  "logEvent event lg =
     (if \<not> eventOpen lg then lg else lg\<lparr>eventLog := eventLog lg @ [event]\<rparr>)"

text \<open>
  \<^verbatim>\<open>TelemetryLogger::initialize\<close>; whether each file could be opened is decided by the
  file system and is an input.
\<close>

definition lg_initialize :: "bool \<Rightarrow> bool \<Rightarrow> TelemetryLogger \<Rightarrow> bool \<times> TelemetryLogger" where
  "lg_initialize telemetry_ok event_ok lg =
     (if \<not> telemetry_ok then (False, lg)
      else
        let lg1 = lg\<lparr>telemetryOpen := True\<rparr>
        in if \<not> event_ok then (False, lg1)
           else (True, logEvent ''Telemetry logging system initialized'' (lg1\<lparr>eventOpen := True\<rparr>)))"

text \<open>The fields carry the names of the private members without the trailing underscore.\<close>

record SystemMonitor =
  flightController :: FlightController
  sensorProcessor :: SensorProcessor
  faultHandler :: FaultHandler
  logger :: TelemetryLogger
  simulationTime :: real

definition SystemMonitor_new :: "int \<Rightarrow> real stream \<Rightarrow> SystemMonitor" where
  "SystemMonitor_new now draws =
     \<lparr>flightController = FlightController_new now,
      sensorProcessor = SensorProcessor_new draws,
      faultHandler = FaultHandler_new,
      logger = TelemetryLogger_new,
      simulationTime = 0.0\<rparr>"

definition sm_initialize :: "int \<Rightarrow> bool \<Rightarrow> bool \<Rightarrow> SystemMonitor \<Rightarrow> bool \<times> SystemMonitor" where
  "sm_initialize now telemetry_ok event_ok sm =
     (let sm1 = sm\<lparr>flightController := fc_initialize now (flightController sm),
                   sensorProcessor := sp_initialize (sensorProcessor sm),
                   faultHandler := fh_initialize (faultHandler sm)\<rparr>;
          (ok, lg) = lg_initialize telemetry_ok event_ok (logger sm1)
      in if \<not> ok then (False, sm1\<lparr>logger := lg\<rparr>)
         else (True, sm1\<lparr>logger := logEvent ''System initialization complete'' lg,
                         simulationTime := 0.0\<rparr>))"

text \<open>
  \<^verbatim>\<open>static_cast<int>(updateRate)\<close> truncates towards zero and is undefined when the
  truncated value is not an \<^verbatim>\<open>int\<close>; \<^verbatim>\<open>int n = v.size()\<close> reduces the size modulo
  \<open>2\<^sup>3\<^sup>2\<close>.
\<close>

definition to_int :: "real \<Rightarrow> error + int" where
  "to_int x =
     (let t = (if x \<ge> 0 then \<lfloor>x\<rfloor> else \<lceil>x\<rceil>)
      in if t > INT_MAX \<or> t < - INT_MAX - 1 then Inl ConversionOutOfRange else Inr t)"

definition size_to_int :: "nat \<Rightarrow> int" where
  "size_to_int n =
     (let m = int n mod 4294967296 in if m > INT_MAX then m - 4294967296 else m)"

text \<open>
  What the environment supplies to one iteration of the loop of \<^verbatim>\<open>run\<close>: the clock
  reading inside \<^verbatim>\<open>update\<close> and the clock reading inside \<^verbatim>\<open>triggerEmergency\<close>.
\<close>

record TickEnv =
  now_update :: int
  now_emergency :: int

text \<open>
  One iteration of the loop of \<^verbatim>\<open>SystemMonitor::run\<close>, up to and including
  \<^verbatim>\<open>simulationTime_ += dt\<close>.  Of the status line printed once per second only the
  undefined behaviour of \<^verbatim>\<open>iterationCount % static_cast<int>(updateRate)\<close> is kept (a
  zero divisor); the pacing sleep is left out.
\<close>

definition tick :: "real \<Rightarrow> real \<Rightarrow> TickEnv \<Rightarrow> SystemMonitor \<Rightarrow> error + SystemMonitor" where
  "tick updateRate dt env sm =
     (let (sensors, sp1) = processSensors (simulationTime sm) (sensorProcessor sm);
          fc1 = update (now_update env)
                  (altitude sensors) (airspeed sensors) (verticalSpeed sensors)
                  (flightController sm);
          phase = getCurrentPhase fc1;
          ctl = getControlSurfaces fc1
      in ebind (checkSensorHealth (altitude sensors) (airspeed sensors) (pressure sensors)
                  (valid sensors) (faultHandler sm)) (\<lambda>fh1.
         ebind (checkControlSystem (elevator ctl) (aileron ctl) (rudder ctl) fh1) (\<lambda>fh2.
         let emergency = (\<not> isSystemSafe fh2 \<and> phase \<noteq> EMERGENCY);
             fc2 = (if emergency
                    then triggerEmergency (now_emergency env) ''Critical fault detected'' fc1
                    else fc1);
             lg1 = (if emergency
                    then logEvent ''Emergency mode activated due to critical fault'' (logger sm)
                    else logger sm);
             activeFaults = size_to_int (length (getActiveFaults fh2));
             lg2 = logData (simulationTime sm) sensors phase ctl activeFaults lg1
         in ebind (to_int updateRate) (\<lambda>r.
            if r = 0 then Inl DivisionByZero
            else
              let inject = (\<bar>simulationTime sm - 100.0\<bar> < dt);
                  sp2 = (if inject then injectFault False True False sp1 else sp1);
                  lg3 = (if inject then logEvent ''Test fault injected: Airspeed sensor'' lg2
                         else lg2);
                  clear = (\<bar>simulationTime sm - 105.0\<bar> < dt);
                  sp3 = (if clear then injectFault False False False sp2 else sp2);
                  lg4 = (if clear then logEvent ''Test fault cleared'' lg3 else lg3)
              in Inr (sm\<lparr>flightController := fc2, sensorProcessor := sp3,
                         faultHandler := fh2, logger := lg4,
                         simulationTime := simulationTime sm + dt\<rparr>)))))"

text \<open>
  The loop of \<^verbatim>\<open>run\<close>, iterated at most once per element of the environment list: the
  state reached when the loop condition fails or the list is used up.  So the function
  gives every state in which an iteration of the loop can end.  \<^verbatim>\<open>run\<close> itself logs the
  start, runs the loop and, when the loop has ended by its condition, logs the
  completion.
\<close>

fun run_loop ::
  "real \<Rightarrow> real \<Rightarrow> TickEnv list \<Rightarrow> int \<Rightarrow> SystemMonitor \<Rightarrow> error + SystemMonitor" where
  "run_loop duration updateRate [] iterationCount sm = Inr sm"
| "run_loop duration updateRate (env # envs) iterationCount sm =
     (if simulationTime sm < duration then
        ebind (tick updateRate (1.0 / updateRate) env sm) (\<lambda>sm1.
        ebind (increment iterationCount) (\<lambda>n.
        run_loop duration updateRate envs n sm1))
      else Inr sm)"

definition run :: "real \<Rightarrow> real \<Rightarrow> TickEnv list \<Rightarrow> SystemMonitor \<Rightarrow> error + SystemMonitor" where
  "run duration updateRate envs sm =
     ebind (run_loop duration updateRate envs 0
              (sm\<lparr>logger := logEvent ''Flight simulation started'' (logger sm)\<rparr>)) (\<lambda>sm1.
     Inr (if simulationTime sm1 < duration then sm1
          else sm1\<lparr>logger := logEvent ''Flight simulation completed'' (logger sm1)\<rparr>))"

text \<open>
  The monitor as \<^verbatim>\<open>main\<close> sets it up: constructed, then initialised with both log files
  opened.
\<close>

definition started :: "int \<Rightarrow> int \<Rightarrow> real stream \<Rightarrow> SystemMonitor" where
  "started now0 now1 draws = snd (sm_initialize now1 True True (SystemMonitor_new now0 draws))"

section \<open>Notions used in the statements and proofs\<close>

subsection \<open>Invariants and observations\<close>

text \<open>
  The critical counter equals the number of CRITICAL and FATAL records in the log, and no
  record of the log is marked resolved.
\<close>

definition fh_inv :: "FaultHandler \<Rightarrow> bool" where
  "fh_inv fh =
     (criticalFaultCount fh = int (length (filter (\<lambda>r. is_critical (severity r)) (faults fh)))
      \<and> (\<forall>r \<in> set (faults fh). \<not> resolved r))"

text \<open>
  Two controllers a client cannot tell apart: same phase, same control surfaces, and the
  same phase start time unless the phase is EMERGENCY, where it is never read.
\<close>

definition fc_equiv :: "FlightController \<Rightarrow> FlightController \<Rightarrow> bool" where
  "fc_equiv a b =
     (currentPhase a = currentPhase b \<and> controls a = controls b \<and>
      (currentPhase a = EMERGENCY \<or> phaseStartTime a = phaseStartTime b))"

text \<open>
  The last \<open>FILTER_WINDOW_SIZE\<close> elements of a sequence of samples, and the arithmetic
  mean.
\<close>

definition window :: "real list \<Rightarrow> real list" where
  "window xs = drop (length xs - FILTER_WINDOW_SIZE) xs"

definition mean :: "real list \<Rightarrow> real" where
  "mean xs = sum_list xs / real (length xs)"

text \<open>The raw samples of one call: the airspeed draw comes after the altitude draw.\<close>

definition rawAltitude :: "real \<Rightarrow> SensorProcessor \<Rightarrow> real" where
  "rawAltitude t sp = fst (simulateAltitude t sp)"

definition rawAirspeed :: "real \<Rightarrow> SensorProcessor \<Rightarrow> real" where
  "rawAirspeed t sp = fst (simulateAirspeed t (snd (simulateAltitude t sp)))"

text \<open>
  The telemetry of an iteration, and the controller after the \<^verbatim>\<open>update\<close> call of the iteration,
  before the emergency override.
\<close>

definition tick_sensors :: "SystemMonitor \<Rightarrow> SensorData" where
  "tick_sensors sm = fst (processSensors (simulationTime sm) (sensorProcessor sm))"

definition tick_controller :: "TickEnv \<Rightarrow> SystemMonitor \<Rightarrow> FlightController" where
  "tick_controller env sm =
     update (now_update env)
       (altitude (tick_sensors sm)) (airspeed (tick_sensors sm)) (verticalSpeed (tick_sensors sm))
       (flightController sm)"

text \<open>
  The log holds no FATAL record; the altitude channel is free of the fault flag and of
  negative samples.
\<close>

definition no_fatal :: "FaultHandler \<Rightarrow> bool" where
  "no_fatal fh = (FATAL \<notin> severity ` set (faults fh))"

definition altitude_inv :: "SensorProcessor \<Rightarrow> bool" where
  "altitude_inv sp = (\<not> altitudeFault sp \<and> (\<forall>x \<in> set (altitudeHistory sp). 0 \<le> x))"

text \<open>
  The parts of an iteration, from which its result is put together once both fault checks
  have returned the handler \<open>fh\<close>: whether the override fires, the row written to the
  telemetry file, and the monitor at the end of the iteration.
\<close>

definition tick_emergency :: "TickEnv \<Rightarrow> SystemMonitor \<Rightarrow> FaultHandler \<Rightarrow> bool" where
  "tick_emergency env sm fh =
     (\<not> isSystemSafe fh \<and> getCurrentPhase (tick_controller env sm) \<noteq> EMERGENCY)"

definition tick_snapshot :: "TickEnv \<Rightarrow> SystemMonitor \<Rightarrow> FaultHandler \<Rightarrow> Snapshot" where
  "tick_snapshot env sm fh =
     \<lparr>snap_time = simulationTime sm, snap_sensors = tick_sensors sm,
      snap_phase = getCurrentPhase (tick_controller env sm),
      snap_controls = getControlSurfaces (tick_controller env sm),
      snap_faults = size_to_int (length (getActiveFaults fh))\<rparr>"

definition tick_result :: "real \<Rightarrow> TickEnv \<Rightarrow> SystemMonitor \<Rightarrow> FaultHandler \<Rightarrow> SystemMonitor" where
  "tick_result dt env sm fh =
     (let sp1 = snd (processSensors (simulationTime sm) (sensorProcessor sm));
          fc2 = (if tick_emergency env sm fh
                 then triggerEmergency (now_emergency env) ''Critical fault detected''
                        (tick_controller env sm)
                 else tick_controller env sm);
          lg1 = (if tick_emergency env sm fh
                 then logEvent ''Emergency mode activated due to critical fault'' (logger sm)
                 else logger sm);
          lg2 = logData (simulationTime sm) (tick_sensors sm)
                  (getCurrentPhase (tick_controller env sm))
                  (getControlSurfaces (tick_controller env sm))
                  (size_to_int (length (getActiveFaults fh))) lg1;
          inject = (\<bar>simulationTime sm - 100.0\<bar> < dt);
          sp2 = (if inject then injectFault False True False sp1 else sp1);
          lg3 = (if inject then logEvent ''Test fault injected: Airspeed sensor'' lg2 else lg2);
          clear = (\<bar>simulationTime sm - 105.0\<bar> < dt);
          sp3 = (if clear then injectFault False False False sp2 else sp2);
          lg4 = (if clear then logEvent ''Test fault cleared'' lg3 else lg3)
      in sm\<lparr>flightController := fc2, sensorProcessor := sp3, faultHandler := fh,
            logger := lg4, simulationTime := simulationTime sm + dt\<rparr>)"

text \<open>
  The invariant of the closed loop behind the absence of FATAL records.
\<close>

definition monitor_inv :: "SystemMonitor \<Rightarrow> bool" where
  "monitor_inv sm = (altitude_inv (sensorProcessor sm) \<and> no_fatal (faultHandler sm))"

text \<open>
  The monitor at simulation time \<open>k\<close> seconds of a run that has stayed in PREFLIGHT
  without a critical fault; \<open>sf\<close> is the airspeed fault flag.
\<close>

definition preflight_run_inv :: "nat \<Rightarrow> bool \<Rightarrow> SystemMonitor \<Rightarrow> bool" where
  "preflight_run_inv k sf sm =
     (simulationTime sm = real k
      \<and> currentPhase (flightController sm) = PREFLIGHT
      \<and> throttle (controls (flightController sm)) = 0
      \<and> criticalFaultCount (faultHandler sm) = 0
      \<and> 0 \<le> warningFaultCount (faultHandler sm)
      \<and> warningFaultCount (faultHandler sm) \<le> 6 * int k
      \<and> altitude_inv (sensorProcessor sm)
      \<and> airspeedFault (sensorProcessor sm) = sf
      \<and> \<not> pressureFault (sensorProcessor sm)
      \<and> telemetryOpen (logger sm))"

text \<open>
  Concrete inputs for the witnesses: an environment, the monitor as \<^verbatim>\<open>main\<close> starts it with
  all noise draws zero, the same monitor with the airspeed fault flag set, and the same
  monitor after the first line of \<^verbatim>\<open>run\<close>.
\<close>

definition example_env :: TickEnv where
  "example_env = \<lparr>now_update = 1, now_emergency = 2\<rparr>"

definition example_monitor :: SystemMonitor where
  "example_monitor = started 0 0 (sconst 0)"

definition example_faulted_monitor :: SystemMonitor where
  "example_faulted_monitor =
     example_monitor\<lparr>sensorProcessor :=
       injectFault False True False (sensorProcessor example_monitor)\<rparr>"

definition example_running_monitor :: SystemMonitor where
  "example_running_monitor =
     example_monitor\<lparr>logger := logEvent ''Flight simulation started'' (logger example_monitor)\<rparr>"

subsection \<open>Double arithmetic for the filter\<close>

text \<open>
  The arithmetic of a \<^verbatim>\<open>double\<close> as IEEE 754 defines it for binary64 with the default
  rounding: the result of an operation is the exact result rounded to the nearest number
  with a 53-bit significand, ties going to the even significand.  The definition covers
  results in the normal range (no overflow to infinity, no subnormal numbers).  A number
  is representable when rounding leaves it alone.
\<close>

definition round_to_even :: "real \<Rightarrow> int" where
  "round_to_even x =
     (let f = \<lfloor>x\<rfloor>; d = x - of_int f
      in if d < 1 / 2 then f else if 1 / 2 < d then f + 1 else if even f then f else f + 1)"

definition round_binary64 :: "real \<Rightarrow> real" where
  "round_binary64 x =
     (if x = 0 then 0
      else let e = \<lfloor>log 2 \<bar>x\<bar>\<rfloor> - 52
           in of_int (round_to_even (x / 2 powr of_int e)) * 2 powr of_int e)"

definition representable :: "real \<Rightarrow> bool" where
  "representable x = (round_binary64 x = x)"

text \<open>
  \<^verbatim>\<open>applyFilter\<close> once more, with every addition of \<^verbatim>\<open>std::accumulate\<close> and the final
  division rounded; the history is the same as in the exact model.
\<close>

definition applyFilter_binary64 :: "real list \<Rightarrow> real \<Rightarrow> real list \<times> real" where
  "applyFilter_binary64 history newValue =
     (let h1 = history @ [newValue];
          h2 = (if length h1 > FILTER_WINDOW_SIZE then tl h1 else h1);
          total = foldl (\<lambda>acc v. round_binary64 (acc + v)) 0.0 h2
      in (h2, round_binary64 (total / real (length h2))))"

definition mean_binary64 :: "real list \<Rightarrow> real" where
  "mean_binary64 xs =
     round_binary64 (foldl (\<lambda>acc v. round_binary64 (acc + v)) 0.0 xs / real (length xs))"

fun filter_all_binary64 :: "real list \<Rightarrow> real list \<Rightarrow> real list" where
  "filter_all_binary64 history [] = []"
| "filter_all_binary64 history (x # xs) =
     (let (h, y) = applyFilter_binary64 history x in y # filter_all_binary64 h xs)"

section \<open>The fault handler\<close>

lemma ebind_Inr: "ebind m f = Inr y \<longleftrightarrow> (\<exists>x. m = Inr x \<and> f x = Inr y)"
  by (cases m) (simp_all add: ebind_def)

lemma increment_Inr: "increment n = Inr m \<longleftrightarrow> (n \<noteq> INT_MAX \<and> m = n + 1)"
  by (auto simp: increment_def)

lemma reportFault_Inr:
  assumes "reportFault sev c d fh = Inr fh'"
  shows "faults fh' = faults fh @ [\<lparr>severity = sev, component = c, description = d, resolved = False\<rparr>]"
    and "criticalFaultCount fh' = criticalFaultCount fh + (if is_critical sev then 1 else 0)"
  using assms
  by (auto simp: reportFault_def Let_def ebind_Inr increment_Inr is_critical_def split: if_splits)

lemma reportFault_inv:
  assumes "reportFault sev c d fh = Inr fh'" "fh_inv fh"
  shows "fh_inv fh'"
  using assms(2) reportFault_Inr[OF assms(1)]
  by (auto simp: fh_inv_def)

lemma report_when_Inr:
  assumes "report_when b sev c d fh = Inr fh'"
  shows "criticalFaultCount fh' = criticalFaultCount fh + (if b \<and> is_critical sev then 1 else 0)"
  using assms reportFault_Inr(2)[of sev c d fh fh']
  by (auto simp: report_when_def split: if_splits)

lemma report_when_inv:
  assumes "report_when b sev c d fh = Inr fh'" "fh_inv fh"
  shows "fh_inv fh'"
  using assms reportFault_inv[of sev c d fh fh']
  by (auto simp: report_when_def split: if_splits)

lemma checkSensorHealth_inv:
  assumes "checkSensorHealth alt spd prs v fh = Inr fh'" "fh_inv fh"
  shows "fh_inv fh'"
  using assms
  by (auto simp: checkSensorHealth_def ebind_Inr split: if_splits
      dest: report_when_inv reportFault_inv)

lemma checkSensorHealth_count:
  assumes "checkSensorHealth alt spd prs v fh = Inr fh'"
  shows "criticalFaultCount fh' = criticalFaultCount fh + int (critical_reports (CheckSensorHealth alt spd prs v))"
  using assms
  by (auto simp: checkSensorHealth_def ebind_Inr is_critical_def split: if_splits
      dest!: report_when_Inr reportFault_Inr(2))

lemma checkControlSystem_inv:
  assumes "checkControlSystem e a r fh = Inr fh'" "fh_inv fh"
  shows "fh_inv fh'"
  using assms
  by (auto simp: checkControlSystem_def ebind_Inr dest: report_when_inv)

lemma checkControlSystem_count:
  assumes "checkControlSystem e a r fh = Inr fh'"
  shows "criticalFaultCount fh' = criticalFaultCount fh"
  using assms
  by (auto simp: checkControlSystem_def ebind_Inr is_critical_def dest!: report_when_Inr)

lemma clearResolvedFaults_inv: "fh_inv fh \<Longrightarrow> clearResolvedFaults fh = fh"
  by (simp add: fh_inv_def clearResolvedFaults_def)

lemma fh_apply_inv:
  assumes "fh_apply c fh = Inr fh'" "fh_inv fh"
  shows "fh_inv fh'"
  using assms
  by (cases c) (auto simp: fh_initialize_def fh_inv_def[of "_\<lparr>faults := [], criticalFaultCount := 0, warningFaultCount := 0\<rparr>"]
      clearResolvedFaults_inv
      dest: reportFault_inv checkSensorHealth_inv checkControlSystem_inv)

lemma fh_apply_count:
  assumes "fh_apply c fh = Inr fh'" "c \<noteq> Initialize"
  shows "criticalFaultCount fh' = criticalFaultCount fh + int (critical_reports c)"
  using assms
  by (cases c) (auto simp: clearResolvedFaults_def
      dest: reportFault_Inr(2) checkSensorHealth_count checkControlSystem_count)

lemma fh_run_count:
  assumes "fh_run ops fh = Inr fh'" "fh_inv fh"
  shows "fh_inv fh' \<and> criticalFaultCount fh' = int (pending_critical (nat (criticalFaultCount fh)) ops)"
  using assms
proof (induction ops arbitrary: fh)
  case Nil
  then show ?case by (simp add: fh_inv_def)
next
  case (Cons c ops)
  from Cons.prems(1) obtain fh1 where s1: "fh_apply c fh = Inr fh1" and s2: "fh_run ops fh1 = Inr fh'"
    by (auto simp: ebind_Inr)
  have i1: "fh_inv fh1" using fh_apply_inv[OF s1 Cons.prems(2)] .
  note IH = Cons.IH[OF s2 i1]
  have nn: "criticalFaultCount fh \<ge> 0" using Cons.prems(2) by (simp add: fh_inv_def)
  show ?case
  proof (cases "c = Initialize")
    case True
    then have "criticalFaultCount fh1 = 0" using s1 by (auto simp: fh_initialize_def)
    with IH True show ?thesis by simp
  next
    case False
    have "criticalFaultCount fh1 = criticalFaultCount fh + int (critical_reports c)"
      using fh_apply_count[OF s1 False] .
    then have "nat (criticalFaultCount fh1) = nat (criticalFaultCount fh) + critical_reports c"
      using nn by simp
    with IH False show ?thesis by (cases c) simp_all
  qed
qed

lemma fh_initialize_inv: "fh_inv (fh_initialize fh)"
  by (simp add: fh_inv_def fh_initialize_def)

text \<open>
  Claim C2.  Take any sequence of public operations run on an initialised fault
  handler without undefined behaviour.  Then \<^verbatim>\<open>isSystemSafe()\<close> is false exactly when a
  CRITICAL or FATAL fault has been reported since the last \<^verbatim>\<open>initialize()\<close>, which is
  exactly when the log holds such a record; the answer is the test of the incrementally
  kept counter against zero, the counter equals the number of such reports, and
  \<^verbatim>\<open>clearResolvedFaults\<close> does not change the answer.
\<close>

theorem isSystemSafe_iff_no_pending_critical:
  assumes "fh_run ops (fh_initialize fh0) = Inr fh"
  shows "(\<not> isSystemSafe fh) = (0 < pending_critical 0 ops)
       \<and> (\<not> isSystemSafe fh) = (\<exists>r \<in> set (faults fh). is_critical (severity r))
       \<and> isSystemSafe fh = (criticalFaultCount fh = 0)
       \<and> criticalFaultCount fh = int (pending_critical 0 ops)
       \<and> isSystemSafe (clearResolvedFaults fh) = isSystemSafe fh"
proof -
  have c0: "criticalFaultCount (fh_initialize fh0) = 0" by (simp add: fh_initialize_def)
  from fh_run_count[OF assms fh_initialize_inv]
  have inv: "fh_inv fh" and cnt: "criticalFaultCount fh = int (pending_critical 0 ops)"
    by (simp_all add: c0)
  have log: "(criticalFaultCount fh \<noteq> 0) = (\<exists>r \<in> set (faults fh). is_critical (severity r))"
    using inv by (auto simp: fh_inv_def filter_empty_conv)
  show ?thesis
    using cnt log by (simp add: isSystemSafe_def clearResolvedFaults_def)
qed

text \<open>
  Claim C3.  With \<open>valid = false\<close>, and the critical counter below \<open>INT_MAX\<close>, one call
  of \<^verbatim>\<open>checkSensorHealth\<close> appends exactly one record, of severity CRITICAL, increments
  the critical counter and changes nothing else, whatever the three numeric values are:
  no range check and no compound check leaves a trace.
\<close>

theorem invalid_telemetry_reports_one_critical:
  assumes "criticalFaultCount fh \<noteq> INT_MAX"
  shows "checkSensorHealth alt spd prs False fh =
           Inr (fh\<lparr>faults := faults fh @
                     [\<lparr>severity = CRITICAL, component = ''SensorProcessor'',
                       description = ''Sensor fault detected - invalid data'',
                       resolved = False\<rparr>],
                   criticalFaultCount := criticalFaultCount fh + 1\<rparr>)"
  using assms
  by (simp add: checkSensorHealth_def reportFault_def ebind_def increment_def)


theorem isSystemSafe_iff_no_pending_critical_witness:
  "fh_run [ReportFault WARNING ''Test'' ''advisory'', CheckSensorHealth 0 0 1000 False,
           ClearResolvedFaults] (fh_initialize FaultHandler_new)
     = Inr \<lparr>faults =
              [\<lparr>severity = WARNING, component = ''Test'', description = ''advisory'',
                resolved = False\<rparr>,
               \<lparr>severity = CRITICAL, component = ''SensorProcessor'',
                description = ''Sensor fault detected - invalid data'', resolved = False\<rparr>],
            criticalFaultCount = 1, warningFaultCount = 1\<rparr>
   \<and> \<not> isSystemSafe \<lparr>faults =
              [\<lparr>severity = WARNING, component = ''Test'', description = ''advisory'',
                resolved = False\<rparr>,
               \<lparr>severity = CRITICAL, component = ''SensorProcessor'',
                description = ''Sensor fault detected - invalid data'', resolved = False\<rparr>],
            criticalFaultCount = 1, warningFaultCount = 1\<rparr>
   \<and> 0 < pending_critical 0 [ReportFault WARNING ''Test'' ''advisory'',
           CheckSensorHealth 0 0 1000 False, ClearResolvedFaults]"
proof -
  have run: "fh_run [ReportFault WARNING ''Test'' ''advisory'', CheckSensorHealth 0 0 1000 False,
           ClearResolvedFaults] (fh_initialize FaultHandler_new)
     = Inr \<lparr>faults =
              [\<lparr>severity = WARNING, component = ''Test'', description = ''advisory'',
                resolved = False\<rparr>,
               \<lparr>severity = CRITICAL, component = ''SensorProcessor'',
                description = ''Sensor fault detected - invalid data'', resolved = False\<rparr>],
            criticalFaultCount = 1, warningFaultCount = 1\<rparr>"
    by (simp add: fh_initialize_def FaultHandler_new_def reportFault_def checkSensorHealth_def
        clearResolvedFaults_def ebind_def increment_def INT_MAX_def)
  from isSystemSafe_iff_no_pending_critical[OF run] run show ?thesis
    by (simp add: is_critical_def)
qed

theorem invalid_telemetry_reports_one_critical_witness:
  "criticalFaultCount FaultHandler_new \<noteq> INT_MAX
   \<and> checkSensorHealth 20000 (- 5) 0 False FaultHandler_new =
       Inr \<lparr>faults = [\<lparr>severity = CRITICAL, component = ''SensorProcessor'',
                        description = ''Sensor fault detected - invalid data'',
                        resolved = False\<rparr>],
            criticalFaultCount = 1, warningFaultCount = 0\<rparr>"
proof -
  have h: "criticalFaultCount FaultHandler_new \<noteq> INT_MAX"
    by (simp add: FaultHandler_new_def INT_MAX_def)
  from invalid_telemetry_reports_one_critical[OF h, of 20000 "- 5" 0] h show ?thesis
    by (simp add: FaultHandler_new_def)
qed

section \<open>The flight controller\<close>

lemma set_targets_sel [simp]:
  "throttle (set_targets t e c) = t" "elevator (set_targets t e c) = e"
  "aileron (set_targets t e c) = aileron c" "rudder (set_targets t e c) = rudder c"
  by (simp_all add: set_targets_def)

lemma clamp_bounds: "lo \<le> hi \<Longrightarrow> lo \<le> clamp v lo hi \<and> clamp v lo hi \<le> hi"
  by (simp add: clamp_def)

lemma updateControlSurfaces_controls:
  "controls (updateControlSurfaces alt spd vs fc) =
     \<lparr>elevator = clamp (case currentPhase fc of PREFLIGHT \<Rightarrow> 0.0 | TAKEOFF \<Rightarrow> 0.15 | CLIMB \<Rightarrow> 0.1
                          | CRUISE \<Rightarrow> 0.0 | DESCENT \<Rightarrow> - 0.05 | APPROACH \<Rightarrow> - 0.08
                          | LANDING \<Rightarrow> - 0.1 | EMERGENCY \<Rightarrow> 0.0) (- 1.0) 1.0,
      aileron = clamp (aileron (controls fc)) (- 1.0) 1.0,
      rudder = clamp (rudder (controls fc)) (- 1.0) 1.0,
      throttle = clamp (case currentPhase fc of PREFLIGHT \<Rightarrow> 0.0 | TAKEOFF \<Rightarrow> 1.0 | CLIMB \<Rightarrow> 0.9
                          | CRUISE \<Rightarrow> 0.7 | DESCENT \<Rightarrow> 0.4 | APPROACH \<Rightarrow> 0.3
                          | LANDING \<Rightarrow> 0.1 | EMERGENCY \<Rightarrow> 0.5) 0.0 1.0\<rparr>"
  by (cases "currentPhase fc") (simp_all add: updateControlSurfaces_def set_targets_def)

lemma updateControlSurfaces_in_range:
  "surfaces_in_range (controls (updateControlSurfaces alt spd vs fc))"
  unfolding updateControlSurfaces_controls surfaces_in_range_def
  using clamp_bounds[of "- 1.0" "1.0"] clamp_bounds[of "0.0" "1.0"]
  by simp


lemma updateControlSurfaces_other [simp]:
  "currentPhase (updateControlSurfaces alt spd vs a) = currentPhase a"
  "phaseStartTime (updateControlSurfaces alt spd vs a) = phaseStartTime a"
  "previousPhase (updateControlSurfaces alt spd vs a) = previousPhase a"
  "console (updateControlSurfaces alt spd vs a) = console a"
  by (simp_all add: updateControlSurfaces_def Let_def)

lemma update_in_range: "surfaces_in_range (controls (update now alt spd vs fc))"
  by (simp add: update_def updateControlSurfaces_in_range)

lemma fc_initialize_in_range: "surfaces_in_range (controls (fc_initialize now fc))"
  by (simp add: fc_initialize_def surfaces_in_range_def)

lemma fc_apply_in_range:
  "surfaces_in_range (controls fc) \<Longrightarrow> surfaces_in_range (controls (fc_apply c fc))"
  by (cases c) (simp_all add: update_in_range fc_initialize_in_range triggerEmergency_def)

lemma fc_run_in_range:
  "surfaces_in_range (controls fc) \<Longrightarrow> surfaces_in_range (controls (fc_run ops fc))"
  by (induction ops arbitrary: fc) (simp_all add: fc_apply_in_range)

text \<open>
  Claim C7.  The exposed control surfaces are within their ranges (elevator, aileron
  and rudder in \<open>[-1, 1]\<close>, throttle in \<open>[0, 1]\<close>) after construction, after
  \<^verbatim>\<open>initialize()\<close>, after every \<^verbatim>\<open>update\<close> from any state whatsoever (the clamp is applied
  on every call, whatever the phase and the previous values), and so in every state
  reached by any sequence of public operations.
\<close>

theorem control_surfaces_always_in_range:
  "surfaces_in_range (getControlSurfaces (FlightController_new now0))
   \<and> surfaces_in_range (getControlSurfaces (fc_initialize now fc))
   \<and> surfaces_in_range (getControlSurfaces (update now alt spd vs fc))
   \<and> surfaces_in_range (getControlSurfaces (fc_run ops (fc_initialize now fc)))
   \<and> surfaces_in_range (getControlSurfaces (fc_run ops (FlightController_new now0)))"
proof -
  have new: "surfaces_in_range (controls (FlightController_new now0))"
    by (simp add: FlightController_new_def surfaces_in_range_def)
  show ?thesis
    unfolding getControlSurfaces_def
    using new fc_initialize_in_range update_in_range fc_run_in_range by blast
qed


lemma updateControlSurfaces_equiv:
  "fc_equiv a b \<Longrightarrow>
   fc_equiv (updateControlSurfaces alt spd vs a) (updateControlSurfaces alt spd vs b)"
  by (auto simp: fc_equiv_def updateControlSurfaces_controls)

lemma transitionToPhase_equiv:
  "fc_equiv a b \<Longrightarrow> currentPhase a \<noteq> EMERGENCY \<Longrightarrow> p \<noteq> EMERGENCY \<Longrightarrow>
   fc_equiv (transitionToPhase now p a) (transitionToPhase now p b)"
  by (simp add: fc_equiv_def transitionToPhase_def)

lemma elapsed_seconds_equiv:
  "fc_equiv a b \<Longrightarrow> currentPhase a \<noteq> EMERGENCY \<Longrightarrow>
   elapsed_seconds now a = elapsed_seconds now b"
  by (simp add: fc_equiv_def elapsed_seconds_def)

lemma update_equiv:
  assumes "fc_equiv a b"
  shows "fc_equiv (update now alt spd vs a) (update now alt spd vs b)"
proof -
  have ph: "currentPhase a = currentPhase b" using assms by (simp add: fc_equiv_def)
  have ct: "controls a = controls b" using assms by (simp add: fc_equiv_def)
  show ?thesis
    unfolding update_def
  proof (rule updateControlSurfaces_equiv, cases "currentPhase b")
    case CRUISE
    then show "fc_equiv
      (case currentPhase a of
         PREFLIGHT \<Rightarrow> if spd > 5.0 \<and> throttle (controls a) > 0.5
                      then transitionToPhase now TAKEOFF a else a
       | TAKEOFF \<Rightarrow> if alt > 100.0 \<and> vs > 2.0 then transitionToPhase now CLIMB a else a
       | CLIMB \<Rightarrow> if alt > 3000.0 \<and> \<bar>vs\<bar> < 1.0 then transitionToPhase now CRUISE a else a
       | CRUISE \<Rightarrow> if elapsed_seconds now a > 60 \<and> vs < - 1.0
                   then transitionToPhase now DESCENT a else a
       | DESCENT \<Rightarrow> if alt < 500.0 \<and> spd < 80.0 then transitionToPhase now APPROACH a else a
       | APPROACH \<Rightarrow> if alt < 50.0 then transitionToPhase now LANDING a else a
       | LANDING \<Rightarrow> a
       | EMERGENCY \<Rightarrow> a)
      (case currentPhase b of
         PREFLIGHT \<Rightarrow> if spd > 5.0 \<and> throttle (controls b) > 0.5
                      then transitionToPhase now TAKEOFF b else b
       | TAKEOFF \<Rightarrow> if alt > 100.0 \<and> vs > 2.0 then transitionToPhase now CLIMB b else b
       | CLIMB \<Rightarrow> if alt > 3000.0 \<and> \<bar>vs\<bar> < 1.0 then transitionToPhase now CRUISE b else b
       | CRUISE \<Rightarrow> if elapsed_seconds now b > 60 \<and> vs < - 1.0
                   then transitionToPhase now DESCENT b else b
       | DESCENT \<Rightarrow> if alt < 500.0 \<and> spd < 80.0 then transitionToPhase now APPROACH b else b
       | APPROACH \<Rightarrow> if alt < 50.0 then transitionToPhase now LANDING b else b
       | LANDING \<Rightarrow> b
       | EMERGENCY \<Rightarrow> b)"
      using assms ph elapsed_seconds_equiv[OF assms, of now]
      by (simp add: transitionToPhase_equiv)
  qed (use assms ph ct in \<open>simp_all add: transitionToPhase_equiv\<close>)
qed

lemma fc_apply_equiv: "fc_equiv a b \<Longrightarrow> fc_equiv (fc_apply c a) (fc_apply c b)"
proof (cases c)
  case (FcInitialize now)
  assume "fc_equiv a b"
  then show ?thesis using FcInitialize by (simp add: fc_equiv_def fc_initialize_def)
next
  case (FcUpdate now alt spd vs)
  assume "fc_equiv a b"
  then show ?thesis using FcUpdate by (simp add: update_equiv)
next
  case (FcTriggerEmergency now reason)
  assume "fc_equiv a b"
  then show ?thesis using FcTriggerEmergency by (simp add: fc_equiv_def triggerEmergency_def)
qed

lemma fc_run_equiv: "fc_equiv a b \<Longrightarrow> fc_equiv (fc_run ops a) (fc_run ops b)"
  by (induction ops arbitrary: a b) (simp_all add: fc_apply_equiv)

lemma fc_equiv_observe: "fc_equiv a b \<Longrightarrow> observe a = observe b"
  by (simp add: fc_equiv_def observe_def getCurrentPhase_def getControlSurfaces_def)

text \<open>
  Claim C8.  In a controller that is already in EMERGENCY, \<^verbatim>\<open>triggerEmergency\<close> leaves the
  phase at EMERGENCY and the control surfaces as they were, no later sequence of public
  operations can tell the two controllers apart through the getters, and the call
  writes the reason to the console once more.
\<close>

theorem triggerEmergency_idempotent:
  assumes "currentPhase fc = EMERGENCY"
  shows "getCurrentPhase (triggerEmergency now reason fc) = EMERGENCY
       \<and> getControlSurfaces (triggerEmergency now reason fc) = getControlSurfaces fc
       \<and> observe (fc_run ops (triggerEmergency now reason fc)) = observe (fc_run ops fc)
       \<and> console (triggerEmergency now reason fc) =
           console fc @ [''[FlightController] EMERGENCY TRIGGERED: '' @ reason]"
proof -
  have "fc_equiv (triggerEmergency now reason fc) fc"
    using assms by (simp add: fc_equiv_def triggerEmergency_def)
  then have "observe (fc_run ops (triggerEmergency now reason fc)) = observe (fc_run ops fc)"
    by (intro fc_equiv_observe fc_run_equiv)
  then show ?thesis
    by (simp add: triggerEmergency_def getCurrentPhase_def getControlSurfaces_def)
qed


theorem triggerEmergency_idempotent_witness:
  "currentPhase (triggerEmergency 7 ''first'' (FlightController_new 0)) = EMERGENCY
   \<and> getCurrentPhase (triggerEmergency 9 ''again'' (triggerEmergency 7 ''first'' (FlightController_new 0))) = EMERGENCY
   \<and> getControlSurfaces (triggerEmergency 9 ''again'' (triggerEmergency 7 ''first'' (FlightController_new 0)))
       = \<lparr>elevator = 0, aileron = 0, rudder = 0, throttle = 0\<rparr>
   \<and> observe (fc_run [FcUpdate 11 200 90 3] (triggerEmergency 9 ''again'' (triggerEmergency 7 ''first'' (FlightController_new 0))))
       = (EMERGENCY, \<lparr>elevator = 0, aileron = 0, rudder = 0, throttle = 0.5\<rparr>)"
proof -
  have h: "currentPhase (triggerEmergency 7 ''first'' (FlightController_new 0)) = EMERGENCY"
    by (simp add: triggerEmergency_def)
  have o: "observe (fc_run [FcUpdate 11 200 90 3] (triggerEmergency 7 ''first'' (FlightController_new 0)))
       = (EMERGENCY, \<lparr>elevator = 0, aileron = 0, rudder = 0, throttle = 0.5\<rparr>)"
    by (simp add: observe_def getCurrentPhase_def getControlSurfaces_def update_def
        updateControlSurfaces_controls triggerEmergency_def FlightController_new_def clamp_def)
  from triggerEmergency_idempotent[OF h, of 9 "''again''" "[FcUpdate 11 200 90 3]"] h o
  show ?thesis
    by (simp add: getControlSurfaces_def triggerEmergency_def FlightController_new_def)
qed


lemma update_from_PREFLIGHT:
  assumes "currentPhase fc = PREFLIGHT"
  shows "currentPhase (update now alt spd vs fc) =
           (if spd > 5.0 \<and> throttle (controls fc) > 0.5 then TAKEOFF else PREFLIGHT)"
    and "phaseStartTime (update now alt spd vs fc) =
           (if spd > 5.0 \<and> throttle (controls fc) > 0.5 then now else phaseStartTime fc)"
  using assms by (simp_all add: update_def transitionToPhase_def)

lemma update_keeps_PREFLIGHT:
  assumes "currentPhase fc = PREFLIGHT" "throttle (controls fc) = 0"
  shows "currentPhase (update now alt spd vs fc) = PREFLIGHT"
    and "throttle (controls (update now alt spd vs fc)) = 0"
    and "phaseStartTime (update now alt spd vs fc) = phaseStartTime fc"
  using assms
  by (simp_all add: update_def updateControlSurfaces_controls clamp_def)

lemma update_keeps_EMERGENCY:
  "currentPhase fc = EMERGENCY \<Longrightarrow> currentPhase (update now alt spd vs fc) = EMERGENCY"
  by (simp add: update_def)

text \<open>
  The commanded throttle is zero whenever the controller is in PREFLIGHT, and the
  controller is in no phase other than PREFLIGHT and EMERGENCY: this holds after the
  constructor and is kept by every public operation.
\<close>

lemma fc_apply_grounded:
  assumes "(currentPhase fc = PREFLIGHT \<and> throttle (controls fc) = 0)
           \<or> currentPhase fc = EMERGENCY"
  shows "(currentPhase (fc_apply c fc) = PREFLIGHT \<and> throttle (controls (fc_apply c fc)) = 0)
           \<or> currentPhase (fc_apply c fc) = EMERGENCY"
proof (cases c)
  case (FcInitialize now)
  then show ?thesis by (simp add: fc_initialize_def)
next
  case (FcUpdate now alt spd vs)
  from assms show ?thesis
  proof
    assume "currentPhase fc = PREFLIGHT \<and> throttle (controls fc) = 0"
    then show ?thesis
      using update_keeps_PREFLIGHT(1,2)[of fc now alt spd vs] FcUpdate by simp
  next
    assume "currentPhase fc = EMERGENCY"
    then show ?thesis
      using update_keeps_EMERGENCY[of fc now alt spd vs] FcUpdate by simp
  qed
next
  case (FcTriggerEmergency now reason)
  then show ?thesis by (simp add: triggerEmergency_def)
qed

lemma fc_run_grounded:
  "(currentPhase fc = PREFLIGHT \<and> throttle (controls fc) = 0) \<or> currentPhase fc = EMERGENCY \<Longrightarrow>
   (currentPhase (fc_run ops fc) = PREFLIGHT \<and> throttle (controls (fc_run ops fc)) = 0)
     \<or> currentPhase (fc_run ops fc) = EMERGENCY"
proof (induction ops arbitrary: fc)
  case Nil
  then show ?case by simp
next
  case (Cons c ops)
  from Cons.IH[OF fc_apply_grounded[OF Cons.prems, of c]] show ?case by simp
qed

lemma commanded_throttle_zero_in_PREFLIGHT:
  "currentPhase (fc_run ops (FlightController_new now0)) = PREFLIGHT \<longrightarrow>
   throttle (getControlSurfaces (fc_run ops (FlightController_new now0))) = 0"
proof -
  have "(currentPhase (fc_run ops (FlightController_new now0)) = PREFLIGHT
          \<and> throttle (controls (fc_run ops (FlightController_new now0))) = 0)
        \<or> currentPhase (fc_run ops (FlightController_new now0)) = EMERGENCY"
    by (rule fc_run_grounded) (simp add: FlightController_new_def)
  then show ?thesis unfolding getControlSurfaces_def by auto
qed





section \<open>The sensor processor\<close>

subsection \<open>The moving-average filter\<close>

lemma foldl_plus_sum_list: "foldl (+) a xs = a + sum_list (xs :: real list)"
  by (induction xs arbitrary: a) simp_all

lemma applyFilter_eq:
  "applyFilter h x =
     (if length h \<ge> FILTER_WINDOW_SIZE then (tl (h @ [x]), mean (tl (h @ [x])))
      else (h @ [x], mean (h @ [x])))"
  by (simp add: applyFilter_def Let_def foldl_plus_sum_list mean_def)

lemma applyFilter_window:
  assumes "length h \<le> FILTER_WINDOW_SIZE"
  shows "applyFilter h x = (window (h @ [x]), mean (window (h @ [x])))"
proof (cases "length h = FILTER_WINDOW_SIZE")
  case True
  then have "window (h @ [x]) = tl (h @ [x])"
    by (cases h) (simp_all add: window_def FILTER_WINDOW_SIZE_def)
  with True show ?thesis by (simp add: applyFilter_eq)
next
  case False
  with assms have "length h < FILTER_WINDOW_SIZE" by simp
  then show ?thesis by (simp add: applyFilter_eq window_def)
qed

lemma length_window: "length (window xs) \<le> FILTER_WINDOW_SIZE"
  by (simp add: window_def)

lemma window_window_append: "window (window a @ b) = window (a @ b)"
proof (cases "length a \<le> FILTER_WINDOW_SIZE")
  case True
  then show ?thesis by (simp add: window_def)
next
  case False
  then have e: "length a - FILTER_WINDOW_SIZE + FILTER_WINDOW_SIZE = length a" by simp
  have f: "length a + length b - FILTER_WINDOW_SIZE = length b + (length a - FILTER_WINDOW_SIZE)"
    using False by simp
  show ?thesis
    using False by (simp add: window_def e f)
qed

lemma filter_all_nth:
  assumes "length h \<le> FILTER_WINDOW_SIZE" "k < length xs"
  shows "filter_all h xs ! k = mean (window (h @ take (Suc k) xs))"
  using assms
proof (induction xs arbitrary: h k)
  case Nil
  then show ?case by simp
next
  case (Cons x xs)
  show ?case
  proof (cases k)
    case 0
    then show ?thesis using Cons.prems by (simp add: applyFilter_window)
  next
    case (Suc j)
    then have j: "j < length xs" using Cons.prems by simp
    have "filter_all (window (h @ [x])) xs ! j = mean (window (window (h @ [x]) @ take (Suc j) xs))"
      by (rule Cons.IH[OF length_window j])
    then show ?thesis
      using Cons.prems Suc by (simp add: applyFilter_window window_window_append)
  qed
qed

lemma mean_replicate: "0 < n \<Longrightarrow> mean (replicate n v) = v"
  by (simp add: mean_def sum_list_replicate)

lemma window_constant_tail:
  assumes "FILTER_WINDOW_SIZE \<le> m"
  shows "window (h @ replicate m v) = replicate FILTER_WINDOW_SIZE v"
proof -
  have "window (h @ replicate m v) = drop (m - FILTER_WINDOW_SIZE) (replicate m v)"
    using assms by (simp add: window_def)
  then show ?thesis using assms by simp
qed

subsection \<open>Projections of one call of processSensors\<close>

lemma draw_fields [simp]:
  "altitudeHistory (snd (draw sp)) = altitudeHistory sp"
  "airspeedHistory (snd (draw sp)) = airspeedHistory sp"
  "altitudeFault (snd (draw sp)) = altitudeFault sp"
  "airspeedFault (snd (draw sp)) = airspeedFault sp"
  "pressureFault (snd (draw sp)) = pressureFault sp"
  by (simp_all add: draw_def)

lemma simulateAltitude_fields [simp]:
  "altitudeHistory (snd (simulateAltitude t sp)) = altitudeHistory sp"
  "airspeedHistory (snd (simulateAltitude t sp)) = airspeedHistory sp"
  "altitudeFault (snd (simulateAltitude t sp)) = altitudeFault sp"
  "airspeedFault (snd (simulateAltitude t sp)) = airspeedFault sp"
  "pressureFault (snd (simulateAltitude t sp)) = pressureFault sp"
  by (simp_all add: simulateAltitude_def Let_def split_beta)

lemma simulateAirspeed_fields [simp]:
  "altitudeHistory (snd (simulateAirspeed t sp)) = altitudeHistory sp"
  "airspeedHistory (snd (simulateAirspeed t sp)) = airspeedHistory sp"
  "altitudeFault (snd (simulateAirspeed t sp)) = altitudeFault sp"
  "airspeedFault (snd (simulateAirspeed t sp)) = airspeedFault sp"
  "pressureFault (snd (simulateAirspeed t sp)) = pressureFault sp"
  by (simp_all add: simulateAirspeed_def Let_def split_beta)

lemma simulatePressure_fields [simp]:
  "altitudeHistory (snd (simulatePressure a sp)) = altitudeHistory sp"
  "airspeedHistory (snd (simulatePressure a sp)) = airspeedHistory sp"
  "altitudeFault (snd (simulatePressure a sp)) = altitudeFault sp"
  "airspeedFault (snd (simulatePressure a sp)) = airspeedFault sp"
  "pressureFault (snd (simulatePressure a sp)) = pressureFault sp"
  by (simp_all add: simulatePressure_def Let_def split_beta)

lemma simulateTemperature_fields [simp]:
  "altitudeHistory (snd (simulateTemperature a sp)) = altitudeHistory sp"
  "airspeedHistory (snd (simulateTemperature a sp)) = airspeedHistory sp"
  "altitudeFault (snd (simulateTemperature a sp)) = altitudeFault sp"
  "airspeedFault (snd (simulateTemperature a sp)) = airspeedFault sp"
  "pressureFault (snd (simulateTemperature a sp)) = pressureFault sp"
  by (simp_all add: simulateTemperature_def Let_def split_beta)

lemma processSensors_state:
  "altitudeHistory (snd (processSensors t sp)) = fst (applyFilter (altitudeHistory sp) (rawAltitude t sp))"
  "airspeedHistory (snd (processSensors t sp)) = fst (applyFilter (airspeedHistory sp) (rawAirspeed t sp))"
  "altitudeFault (snd (processSensors t sp)) = altitudeFault sp"
  "airspeedFault (snd (processSensors t sp)) = airspeedFault sp"
  "pressureFault (snd (processSensors t sp)) = pressureFault sp"
  by (simp_all add: processSensors_def Let_def split_beta rawAltitude_def rawAirspeed_def)

lemma processSensors_data:
  "altitude (fst (processSensors t sp)) = snd (applyFilter (altitudeHistory sp) (rawAltitude t sp))"
  "airspeed (fst (processSensors t sp)) = snd (applyFilter (airspeedHistory sp) (rawAirspeed t sp))"
  "valid (fst (processSensors t sp)) = (\<not> altitudeFault sp \<and> \<not> airspeedFault sp \<and> \<not> pressureFault sp)"
  "verticalSpeed (fst (processSensors t sp)) =
     (let h = fst (applyFilter (altitudeHistory sp) (rawAltitude t sp))
      in if length h \<ge> 2 then (last h - h ! (length h - 2)) * 10.0 else 0.0)"
  by (simp_all add: processSensors_def Let_def split_beta rawAltitude_def rawAirspeed_def)

lemma applyFilter_history_last:
  "fst (applyFilter h x) \<noteq> [] \<and> last (fst (applyFilter h x)) = x"
  by (cases h) (auto simp: applyFilter_eq FILTER_WINDOW_SIZE_def last_tl)

lemma applyFilter_history_prev:
  assumes "h \<noteq> []"
  shows "2 \<le> length (fst (applyFilter h x))"
    and "fst (applyFilter h x) ! (length (fst (applyFilter h x)) - 2) = last h"
proof -
  show "2 \<le> length (fst (applyFilter h x))"
    using assms by (cases h) (auto simp: applyFilter_eq FILTER_WINDOW_SIZE_def)
  show "fst (applyFilter h x) ! (length (fst (applyFilter h x)) - 2) = last h"
  proof (cases "length h \<ge> FILTER_WINDOW_SIZE")
    case True
    then have l: "length h \<ge> 5" by (simp add: FILTER_WINDOW_SIZE_def)
    have "tl (h @ [x]) ! (length h - 2) = (h @ [x]) ! Suc (length h - 2)"
      using l by (intro nth_tl) simp
    also have "Suc (length h - 2) = length h - 1" using l by simp
    also have "(h @ [x]) ! (length h - 1) = last h"
      using assms by (simp add: nth_append last_conv_nth)
    finally show ?thesis using True by (simp add: applyFilter_eq)
  next
    case False
    have "(h @ [x]) ! (length h - 1) = last h"
      using assms by (simp add: nth_append last_conv_nth)
    moreover have "Suc (length h) - 2 = length h - 1" by simp
    ultimately show ?thesis using False by (simp add: applyFilter_eq del: One_nat_def)
  qed
qed

lemma applyFilter_first: "fst (applyFilter [] x) = [x]"
  by (simp add: applyFilter_eq FILTER_WINDOW_SIZE_def)

lemma processSensors_verticalSpeed:
  "verticalSpeed (fst (processSensors t s)) =
     (if altitudeHistory s = [] then 0.0
      else (rawAltitude t s - last (altitudeHistory s)) * 10.0)"
proof (cases "altitudeHistory s = []")
  case True
  then show ?thesis by (simp add: processSensors_data applyFilter_first)
next
  case False
  from applyFilter_history_prev[OF False, of "rawAltitude t s"]
    applyFilter_history_last[of "altitudeHistory s" "rawAltitude t s"] False
  show ?thesis by (simp add: processSensors_data Let_def)
qed

text \<open>
  Claim C5, as amended.  The vertical speed returned by \<^verbatim>\<open>processSensors\<close> is ten times
  the difference between the raw altitude sample of this call and the last entry of the
  altitude history, which is the raw sample of the previous call (the history stores the
  unfiltered samples, and the factor \<open>10.0\<close> is fixed in the code); it is zero when the
  history is empty, so on the first sample after \<^verbatim>\<open>initialize()\<close>.
\<close>

theorem verticalSpeed_is_raw_difference:
  "verticalSpeed (fst (processSensors t sp)) =
     (if altitudeHistory sp = [] then 0.0
      else (rawAltitude t sp - last (altitudeHistory sp)) * 10.0)
   \<and> altitudeHistory (snd (processSensors t sp)) \<noteq> []
   \<and> last (altitudeHistory (snd (processSensors t sp))) = rawAltitude t sp
   \<and> verticalSpeed (fst (processSensors t (sp_initialize sp))) = 0.0"
proof -
  have "altitudeHistory (sp_initialize sp) = []" by (simp add: sp_initialize_def)
  then have "verticalSpeed (fst (processSensors t (sp_initialize sp))) = 0.0"
    by (simp add: processSensors_verticalSpeed)
  then show ?thesis
    using processSensors_verticalSpeed[of t sp]
      applyFilter_history_last[of "altitudeHistory sp" "rawAltitude t sp"]
    by (simp add: processSensors_state)
qed




lemma rawAltitude_nonneg: "\<not> altitudeFault sp \<Longrightarrow> 0 \<le> rawAltitude t sp"
  by (simp add: rawAltitude_def simulateAltitude_def Let_def split_beta)


lemma processSensors_mean:
  "altitude (fst (processSensors t sp)) = mean (altitudeHistory (snd (processSensors t sp)))"
  "airspeed (fst (processSensors t sp)) = mean (airspeedHistory (snd (processSensors t sp)))"
  by (simp_all add: processSensors_data processSensors_state applyFilter_eq)


lemma process_all_faults:
  "altitudeFault (snd (process_all ts sp)) = altitudeFault sp"
  "airspeedFault (snd (process_all ts sp)) = airspeedFault sp"
  "pressureFault (snd (process_all ts sp)) = pressureFault sp"
  by (induction ts arbitrary: sp) (simp_all add: split_beta processSensors_state)







lemma injectFault_fields [simp]:
  "altitudeHistory (injectFault af sf pf sp) = altitudeHistory sp"
  "airspeedHistory (injectFault af sf pf sp) = airspeedHistory sp"
  "altitudeFault (injectFault af sf pf sp) = af"
  "airspeedFault (injectFault af sf pf sp) = sf"
  "pressureFault (injectFault af sf pf sp) = pf"
  by (simp_all add: injectFault_def)









lemma example_first_sample:
  "processSensors 0 (sp_initialize (SensorProcessor_new (0 ## 0 ## 0 ## 0 ## 0.3 ## sconst 0)))
   = (\<lparr>altitude = 0, airspeed = 0, pressure = 1013.25, temperature = 15,
        verticalSpeed = 0, valid = True\<rparr>,
      \<lparr>rng = 0.3 ## sconst 0, altitudeHistory = [0], airspeedHistory = [0],
        altitudeFault = False, airspeedFault = False, pressureFault = False\<rparr>)"
  by (simp add: processSensors_def simulateAltitude_def simulateAirspeed_def
      simulatePressure_def simulateTemperature_def draw_def applyFilter_def
      sp_initialize_def SensorProcessor_new_def FILTER_WINDOW_SIZE_def Let_def)

lemma example_second_sample:
  "altitude (fst (processSensors 0.1
     \<lparr>rng = 0.3 ## sconst 0, altitudeHistory = [0], airspeedHistory = [0],
       altitudeFault = False, airspeedFault = False, pressureFault = False\<rparr>)) = 0.3"
  "verticalSpeed (fst (processSensors 0.1
     \<lparr>rng = 0.3 ## sconst 0, altitudeHistory = [0], airspeedHistory = [0],
       altitudeFault = False, airspeedFault = False, pressureFault = False\<rparr>)) = 6"
  by (simp_all add: processSensors_def simulateAltitude_def simulateAirspeed_def
      simulatePressure_def simulateTemperature_def draw_def applyFilter_def
      FILTER_WINDOW_SIZE_def Let_def)

lemma example_one_hertz:
  "verticalSpeed (fst (processSensors 1
     \<lparr>rng = 0.3 ## sconst 0, altitudeHistory = [0], airspeedHistory = [0],
       altitudeFault = False, airspeedFault = False, pressureFault = False\<rparr>)) = 6"
  "altitudeHistory (snd (processSensors 1
     \<lparr>rng = 0.3 ## sconst 0, altitudeHistory = [0], airspeedHistory = [0],
       altitudeFault = False, airspeedFault = False, pressureFault = False\<rparr>)) = [0, 0.6]"
  by (simp_all add: processSensors_def simulateAltitude_def simulateAirspeed_def
      simulatePressure_def simulateTemperature_def draw_def applyFilter_def
      FILTER_WINDOW_SIZE_def Let_def)

text \<open>
  Claim C5, as stated, fails: two samples on the ground, at times \<open>0\<close> and \<open>0.1\<close> (a
  10 Hz loop), the only non-zero noise draw being \<open>0.3\<close> for the second altitude.  The raw
  altitudes are \<open>0\<close> and \<open>0.6\<close>, the filtered altitudes \<open>0\<close> and \<open>0.3\<close>; the second vertical
  speed is \<open>6\<close>, not the difference of the filtered altitudes times the tick rate, which
  is \<open>3\<close>.  With the same samples one second apart (a 1 Hz loop) the vertical speed is
  \<open>6\<close> again: the factor is \<open>10\<close>, not the tick rate.
\<close>

theorem verticalSpeed_not_filtered_difference:
  "map altitude
     (fst (process_all [0, 0.1]
        (sp_initialize (SensorProcessor_new (0 ## 0 ## 0 ## 0 ## 0.3 ## sconst 0))))) = [0, 0.3]
   \<and> map verticalSpeed
     (fst (process_all [0, 0.1]
        (sp_initialize (SensorProcessor_new (0 ## 0 ## 0 ## 0 ## 0.3 ## sconst 0))))) = [0, 6]
   \<and> verticalSpeed
        (fst (process_all [0, 0.1]
           (sp_initialize (SensorProcessor_new (0 ## 0 ## 0 ## 0 ## 0.3 ## sconst 0)))) ! 1)
      \<noteq> (altitude
           (fst (process_all [0, 0.1]
              (sp_initialize (SensorProcessor_new (0 ## 0 ## 0 ## 0 ## 0.3 ## sconst 0)))) ! 1)
         - altitude
           (fst (process_all [0, 0.1]
              (sp_initialize (SensorProcessor_new (0 ## 0 ## 0 ## 0 ## 0.3 ## sconst 0)))) ! 0))
        * (1 / 0.1)
   \<and> altitudeHistory
     (snd (process_all [0, 1]
        (sp_initialize (SensorProcessor_new (0 ## 0 ## 0 ## 0 ## 0.3 ## sconst 0))))) = [0, 0.6]
   \<and> map verticalSpeed
     (fst (process_all [0, 1]
        (sp_initialize (SensorProcessor_new (0 ## 0 ## 0 ## 0 ## 0.3 ## sconst 0))))) = [0, 6]"
proof -
  have a: "map altitude (fst (process_all [0, 0.1]
          (sp_initialize (SensorProcessor_new (0 ## 0 ## 0 ## 0 ## 0.3 ## sconst 0))))) = [0, 0.3]"
    by (simp add: example_first_sample example_second_sample split_beta)
  have v: "map verticalSpeed (fst (process_all [0, 0.1]
          (sp_initialize (SensorProcessor_new (0 ## 0 ## 0 ## 0 ## 0.3 ## sconst 0))))) = [0, 6]"
    by (simp add: example_first_sample example_second_sample split_beta)
  have l: "length (fst (process_all [0, 0.1]
          (sp_initialize (SensorProcessor_new (0 ## 0 ## 0 ## 0 ## 0.3 ## sconst 0))))) = 2"
    by (simp add: split_beta)
  have "verticalSpeed (fst (process_all [0, 0.1]
          (sp_initialize (SensorProcessor_new (0 ## 0 ## 0 ## 0 ## 0.3 ## sconst 0)))) ! 1) = 6"
    using v l by (metis nth_map nth_Cons_0 nth_Cons_Suc One_nat_def lessI numeral_2_eq_2)
  moreover have "altitude (fst (process_all [0, 0.1]
          (sp_initialize (SensorProcessor_new (0 ## 0 ## 0 ## 0 ## 0.3 ## sconst 0)))) ! 1) = 0.3"
    using a l by (metis nth_map nth_Cons_0 nth_Cons_Suc One_nat_def lessI numeral_2_eq_2)
  moreover have "altitude (fst (process_all [0, 0.1]
          (sp_initialize (SensorProcessor_new (0 ## 0 ## 0 ## 0 ## 0.3 ## sconst 0)))) ! 0) = 0"
    using a l by (metis nth_map nth_Cons_0 zero_less_numeral)
  moreover have "altitudeHistory (snd (process_all [0, 1]
          (sp_initialize (SensorProcessor_new (0 ## 0 ## 0 ## 0 ## 0.3 ## sconst 0))))) = [0, 0.6]"
    by (simp add: example_first_sample example_one_hertz split_beta)
  moreover have "map verticalSpeed (fst (process_all [0, 1]
          (sp_initialize (SensorProcessor_new (0 ## 0 ## 0 ## 0 ## 0.3 ## sconst 0))))) = [0, 6]"
    by (simp add: example_first_sample example_one_hertz split_beta)
  ultimately show ?thesis using a v by simp
qed

section \<open>The system monitor\<close>

lemma tick_unfold:
  "tick updateRate dt env sm =
     ebind (checkSensorHealth (altitude (tick_sensors sm)) (airspeed (tick_sensors sm))
              (pressure (tick_sensors sm)) (valid (tick_sensors sm)) (faultHandler sm)) (\<lambda>fh1.
     ebind (checkControlSystem (elevator (getControlSurfaces (tick_controller env sm)))
              (aileron (getControlSurfaces (tick_controller env sm)))
              (rudder (getControlSurfaces (tick_controller env sm))) fh1) (\<lambda>fh2.
     ebind (to_int updateRate) (\<lambda>r.
       if r = 0 then Inl DivisionByZero else Inr (tick_result dt env sm fh2))))"
  unfolding tick_def tick_result_def tick_emergency_def
    tick_controller_def tick_sensors_def Let_def split_beta
  by (rule refl)

lemma logEvent_fields [simp]:
  "telemetryOpen (logEvent e lg) = telemetryOpen lg"
  "eventOpen (logEvent e lg) = eventOpen lg"
  "telemetryLog (logEvent e lg) = telemetryLog lg"
  by (simp_all add: logEvent_def)

lemma logData_fields [simp]:
  "telemetryOpen (logData t s p c n lg) = telemetryOpen lg"
  "eventOpen (logData t s p c n lg) = eventOpen lg"
  "eventLog (logData t s p c n lg) = eventLog lg"
  by (simp_all add: logData_def)

lemma tick_result_fields:
  "faultHandler (tick_result dt env sm fh) = fh"
  "flightController (tick_result dt env sm fh) =
     (if tick_emergency env sm fh
      then triggerEmergency (now_emergency env) ''Critical fault detected'' (tick_controller env sm)
      else tick_controller env sm)"
  "simulationTime (tick_result dt env sm fh) = simulationTime sm + dt"
  "altitudeHistory (sensorProcessor (tick_result dt env sm fh)) =
     altitudeHistory (snd (processSensors (simulationTime sm) (sensorProcessor sm)))"
  "altitudeFault (sensorProcessor (tick_result dt env sm fh)) =
     (if \<bar>simulationTime sm - 100.0\<bar> < dt \<or> \<bar>simulationTime sm - 105.0\<bar> < dt then False
      else altitudeFault (sensorProcessor sm))"
  "telemetryOpen (logger (tick_result dt env sm fh)) = telemetryOpen (logger sm)"
  "eventOpen (logger (tick_result dt env sm fh)) = eventOpen (logger sm)"
  "telemetryLog (logger (tick_result dt env sm fh)) =
     (if telemetryOpen (logger sm)
      then telemetryLog (logger sm) @ [tick_snapshot env sm fh]
      else telemetryLog (logger sm))"
  by (simp_all add: tick_result_def Let_def processSensors_state logData_def tick_snapshot_def)

lemma tick_Inr:
  assumes "tick updateRate dt env sm = Inr sm'"
  shows "\<exists>fh1 r.
      checkSensorHealth (altitude (tick_sensors sm)) (airspeed (tick_sensors sm))
        (pressure (tick_sensors sm)) (valid (tick_sensors sm)) (faultHandler sm) = Inr fh1
    \<and> checkControlSystem (elevator (getControlSurfaces (tick_controller env sm)))
        (aileron (getControlSurfaces (tick_controller env sm)))
        (rudder (getControlSurfaces (tick_controller env sm))) fh1 = Inr (faultHandler sm')
    \<and> to_int updateRate = Inr r \<and> r \<noteq> 0
    \<and> sm' = tick_result dt env sm (faultHandler sm')"
proof -
  from assms obtain fh1 fh2 r where a:
    "checkSensorHealth (altitude (tick_sensors sm)) (airspeed (tick_sensors sm))
        (pressure (tick_sensors sm)) (valid (tick_sensors sm)) (faultHandler sm) = Inr fh1"
    "checkControlSystem (elevator (getControlSurfaces (tick_controller env sm)))
        (aileron (getControlSurfaces (tick_controller env sm)))
        (rudder (getControlSurfaces (tick_controller env sm))) fh1 = Inr fh2"
    "to_int updateRate = Inr r"
    "(if r = 0 then Inl DivisionByZero else Inr (tick_result dt env sm fh2)) = Inr sm'"
    unfolding tick_unfold ebind_Inr by blast
  from a(4) have r: "r \<noteq> 0" and s: "sm' = tick_result dt env sm fh2"
    by (simp_all split: if_splits)
  have f: "faultHandler sm' = fh2" by (simp add: s tick_result_fields)
  show ?thesis
    by (rule exI[of _ fh1], rule exI[of _ r]) (use a(1,2,3) r s f in simp)
qed

lemma update_EMERGENCY_iff:
  "(currentPhase (update now alt spd vs fc) = EMERGENCY) = (currentPhase fc = EMERGENCY)"
  by (cases "currentPhase fc") (simp_all add: update_def transitionToPhase_def)

text \<open>
  The override at the end of an iteration.  Whatever the state at the start of an
  iteration of the loop, if the iteration completes then at its end an unsafe fault
  handler implies that the controller is in EMERGENCY; the controller is the one
  \<^verbatim>\<open>update\<close> returned, with \<^verbatim>\<open>triggerEmergency\<close> applied exactly when the handler is unsafe
  and that controller is not yet in EMERGENCY.
\<close>

lemma emergency_override_at_end_of_tick:
  assumes "tick updateRate dt env sm = Inr sm'"
  shows "(\<not> isSystemSafe (faultHandler sm') \<longrightarrow>
            getCurrentPhase (flightController sm') = EMERGENCY)
       \<and> flightController sm' =
           (if \<not> isSystemSafe (faultHandler sm')
               \<and> getCurrentPhase (tick_controller env sm) \<noteq> EMERGENCY
            then triggerEmergency (now_emergency env) ''Critical fault detected''
                   (tick_controller env sm)
            else tick_controller env sm)"
proof -
  from tick_Inr[OF assms] have s: "sm' = tick_result dt env sm (faultHandler sm')" by blast
  have fc: "flightController sm' =
           (if \<not> isSystemSafe (faultHandler sm')
               \<and> getCurrentPhase (tick_controller env sm) \<noteq> EMERGENCY
            then triggerEmergency (now_emergency env) ''Critical fault detected''
                   (tick_controller env sm)
            else tick_controller env sm)"
    by (subst s) (simp add: tick_result_fields tick_emergency_def)
  have em: "\<not> isSystemSafe (faultHandler sm') \<longrightarrow>
            getCurrentPhase (flightController sm') = EMERGENCY"
    unfolding fc by (simp add: getCurrentPhase_def triggerEmergency_def)
  from em fc show ?thesis by blast
qed

lemma reportFault_no_fatal:
  assumes "reportFault sev c d fh = Inr fh'" "no_fatal fh" "sev \<noteq> FATAL"
  shows "no_fatal fh'"
  using assms(2,3) reportFault_Inr(1)[OF assms(1)] by (simp add: no_fatal_def)

lemma report_when_no_fatal:
  assumes "report_when b sev c d fh = Inr fh'" "no_fatal fh" "b \<longrightarrow> sev \<noteq> FATAL"
  shows "no_fatal fh'"
  using assms reportFault_no_fatal[of sev c d fh fh']
  by (auto simp: report_when_def split: if_splits)

lemma checkSensorHealth_no_fatal:
  assumes "checkSensorHealth alt spd prs v fh = Inr fh'" "no_fatal fh" "0 \<le> alt"
  shows "no_fatal fh'"
proof (cases v)
  case False
  with assms show ?thesis
    by (auto simp: checkSensorHealth_def dest: reportFault_no_fatal)
next
  case True
  with assms(1) obtain fh1 fh2 fh3 where
    s: "report_when (\<not> isInRange alt (- 500) 15000) WARNING ''AltitudeSensor''
          ''Altitude reading out of expected range'' fh = Inr fh1"
       "report_when (\<not> isInRange spd 0 300) WARNING ''AirspeedSensor''
          ''Airspeed reading out of expected range'' fh1 = Inr fh2"
       "report_when (\<not> isInRange prs 100 1100) WARNING ''PressureSensor''
          ''Pressure reading out of expected range'' fh2 = Inr fh3"
       "report_when (alt < 0 \<and> spd > 50) FATAL ''FlightSystem''
          ''Critical: Negative altitude with high airspeed'' fh3 = Inr fh'"
    by (auto simp: checkSensorHealth_def ebind_Inr)
  have "no_fatal fh1" using report_when_no_fatal[OF s(1) assms(2)] by simp
  then have "no_fatal fh2" using report_when_no_fatal[OF s(2)] by simp
  then have "no_fatal fh3" using report_when_no_fatal[OF s(3)] by simp
  then show ?thesis using report_when_no_fatal[OF s(4)] assms(3) by simp
qed

lemma checkControlSystem_no_fatal:
  assumes "checkControlSystem e a r fh = Inr fh'" "no_fatal fh"
  shows "no_fatal fh'"
proof -
  from assms(1) obtain fh1 fh2 where
    s: "report_when (\<bar>e\<bar> > 0.95) WARNING ''ElevatorControl''
          ''Elevator near saturation limit'' fh = Inr fh1"
       "report_when (\<bar>a\<bar> > 0.95) WARNING ''AileronControl''
          ''Aileron near saturation limit'' fh1 = Inr fh2"
       "report_when (\<bar>r\<bar> > 0.95) WARNING ''RudderControl''
          ''Rudder near saturation limit'' fh2 = Inr fh'"
    by (auto simp: checkControlSystem_def ebind_Inr)
  have "no_fatal fh1" using report_when_no_fatal[OF s(1) assms(2)] by simp
  then have "no_fatal fh2" using report_when_no_fatal[OF s(2)] by simp
  then show ?thesis using report_when_no_fatal[OF s(3)] by simp
qed

lemma mean_nonneg: "\<forall>x \<in> set xs. 0 \<le> x \<Longrightarrow> 0 \<le> mean xs"
  by (simp add: mean_def sum_list_nonneg)

lemma applyFilter_set: "set (fst (applyFilter h x)) \<subseteq> insert x (set h)"
proof -
  have "set (tl (h @ [x])) \<subseteq> set (h @ [x])" by (rule list.set_sel(2)[THEN subsetI]) simp
  then show ?thesis by (auto simp: applyFilter_eq)
qed

lemma processSensors_altitude_inv:
  assumes "altitude_inv sp"
  shows "altitude_inv (snd (processSensors t sp))"
    and "0 \<le> altitude (fst (processSensors t sp))"
proof -
  have raw: "0 \<le> rawAltitude t sp"
    using assms by (simp add: altitude_inv_def rawAltitude_nonneg)
  have h: "\<forall>x \<in> set (altitudeHistory (snd (processSensors t sp))). 0 \<le> x"
    using assms raw applyFilter_set[of "altitudeHistory sp" "rawAltitude t sp"]
    by (auto simp: altitude_inv_def processSensors_state)
  show "altitude_inv (snd (processSensors t sp))"
    using assms h by (simp add: altitude_inv_def processSensors_state)
  show "0 \<le> altitude (fst (processSensors t sp))"
    using h by (simp add: processSensors_mean mean_nonneg)
qed

lemma tick_monitor_inv:
  assumes "tick updateRate dt env sm = Inr sm'" "monitor_inv sm"
  shows "monitor_inv sm'"
proof -
  from tick_Inr[OF assms(1)] obtain fh1 where
    a: "checkSensorHealth (altitude (tick_sensors sm)) (airspeed (tick_sensors sm))
        (pressure (tick_sensors sm)) (valid (tick_sensors sm)) (faultHandler sm) = Inr fh1"
    and b: "checkControlSystem (elevator (getControlSurfaces (tick_controller env sm)))
        (aileron (getControlSurfaces (tick_controller env sm)))
        (rudder (getControlSurfaces (tick_controller env sm))) fh1 = Inr (faultHandler sm')"
    and s: "sm' = tick_result dt env sm (faultHandler sm')"
    by blast
  have ai: "altitude_inv (sensorProcessor sm)" and nf: "no_fatal (faultHandler sm)"
    using assms(2) by (simp_all add: monitor_inv_def)
  have alt: "0 \<le> altitude (tick_sensors sm)"
    unfolding tick_sensors_def by (rule processSensors_altitude_inv(2)[OF ai])
  have "no_fatal fh1" by (rule checkSensorHealth_no_fatal[OF a nf alt])
  then have nf': "no_fatal (faultHandler sm')" by (rule checkControlSystem_no_fatal[OF b])
  have "altitude_inv (snd (processSensors (simulationTime sm) (sensorProcessor sm)))"
    by (rule processSensors_altitude_inv(1)[OF ai])
  then have "altitude_inv (sensorProcessor (tick_result dt env sm (faultHandler sm')))"
    using ai by (simp add: altitude_inv_def tick_result_fields processSensors_state)
  then have "altitude_inv (sensorProcessor sm')" using s by simp
  with nf' show ?thesis by (simp add: monitor_inv_def)
qed

lemma run_loop_monitor_inv:
  assumes "run_loop duration updateRate envs n sm = Inr sm'" "monitor_inv sm"
  shows "monitor_inv sm'"
  using assms
proof (induction envs arbitrary: n sm)
  case Nil
  then show ?case by simp
next
  case (Cons env envs)
  show ?case
  proof (cases "simulationTime sm < duration")
    case False
    with Cons.prems show ?thesis by simp
  next
    case True
    with Cons.prems(1) obtain sm1 n1 where
      t: "tick updateRate (1.0 / updateRate) env sm = Inr sm1"
      and r: "run_loop duration updateRate envs n1 sm1 = Inr sm'"
      by (auto simp: ebind_Inr)
    from Cons.IH[OF r tick_monitor_inv[OF t Cons.prems(2)]] show ?thesis .
  qed
qed

lemma started_monitor_inv: "monitor_inv (started now0 now1 draws)"
  by (simp add: started_def sm_initialize_def lg_initialize_def SystemMonitor_new_def
      monitor_inv_def altitude_inv_def no_fatal_def sp_initialize_def fh_initialize_def
      Let_def split_beta)

text \<open>
  Claim C9.  Start the monitor as \<^verbatim>\<open>main\<close> does and let \<^verbatim>\<open>run\<close> iterate any number of times,
  with any noise, clock readings, duration and update rate.  The fault log never holds a
  FATAL record: the altitude fault flag is never set, so every entry of the altitude
  history is non-negative, and so is the filtered altitude.  The two facts behind it:
  without the altitude fault flag \<^verbatim>\<open>simulateAltitude\<close> returns a non-negative sample, and
  with any fault flag set the telemetry is invalid and \<^verbatim>\<open>checkSensorHealth\<close> is the single
  CRITICAL report.
\<close>

theorem no_fatal_fault_in_closed_loop:
  assumes "run duration updateRate envs (started now0 now1 draws) = Inr sm'"
  shows "FATAL \<notin> severity ` set (faults (faultHandler sm'))
       \<and> getFaultCount FATAL (faultHandler sm') = 0
       \<and> \<not> altitudeFault (sensorProcessor sm')
       \<and> (\<forall>x \<in> set (altitudeHistory (sensorProcessor sm')). 0 \<le> x)
       \<and> (\<not> altitudeFault sp \<longrightarrow> 0 \<le> fst (simulateAltitude t sp))
       \<and> (\<not> areSensorsHealthy sp \<longrightarrow> \<not> valid (fst (processSensors t sp)))
       \<and> checkSensorHealth alt spd prs False fh =
           reportFault CRITICAL ''SensorProcessor'' ''Sensor fault detected - invalid data'' fh"
proof -
  have s: "monitor_inv (started now0 now1 draws
          \<lparr>logger := logEvent ''Flight simulation started'' (logger (started now0 now1 draws))\<rparr>)"
    using started_monitor_inv[of now0 now1 draws] by (simp add: monitor_inv_def)
  from assms obtain sm1 where
    l: "run_loop duration updateRate envs 0 (started now0 now1 draws
          \<lparr>logger := logEvent ''Flight simulation started'' (logger (started now0 now1 draws))\<rparr>)
        = Inr sm1"
    and e: "sm' = (if simulationTime sm1 < duration then sm1
          else sm1\<lparr>logger := logEvent ''Flight simulation completed'' (logger sm1)\<rparr>)"
    by (auto simp: run_def ebind_Inr)
  from run_loop_monitor_inv[OF l s] have "monitor_inv sm1" .
  then have i: "monitor_inv sm'" unfolding e by (simp add: monitor_inv_def)
  then have nf: "FATAL \<notin> severity ` set (faults (faultHandler sm'))"
    by (simp add: monitor_inv_def no_fatal_def)
  then have "\<forall>r \<in> set (faults (faultHandler sm')). severity r \<noteq> FATAL"
    by (auto simp: image_iff)
  then have gc: "getFaultCount FATAL (faultHandler sm') = 0"
    by (simp add: getFaultCount_def filter_empty_conv)
  have raw: "\<not> altitudeFault sp \<longrightarrow> 0 \<le> fst (simulateAltitude t sp)"
    using rawAltitude_nonneg[of sp t] by (simp add: rawAltitude_def)
  have inv: "\<not> areSensorsHealthy sp \<longrightarrow> \<not> valid (fst (processSensors t sp))"
    by (simp add: areSensorsHealthy_def processSensors_data)
  have ret: "checkSensorHealth alt spd prs False fh =
           reportFault CRITICAL ''SensorProcessor'' ''Sensor fault detected - invalid data'' fh"
    by (simp add: checkSensorHealth_def)
  from nf gc raw inv ret i show ?thesis
    by (simp add: monitor_inv_def altitude_inv_def)
qed

lemma started_fields:
  "simulationTime (started now0 now1 draws) = 0"
  "faultHandler (started now0 now1 draws) = \<lparr>faults = [], criticalFaultCount = 0, warningFaultCount = 0\<rparr>"
  "currentPhase (flightController (started now0 now1 draws)) = PREFLIGHT"
  "controls (flightController (started now0 now1 draws)) =
     \<lparr>elevator = 0, aileron = 0, rudder = 0, throttle = 0\<rparr>"
  "sensorProcessor (started now0 now1 draws) =
     \<lparr>rng = draws, altitudeHistory = [], airspeedHistory = [],
      altitudeFault = False, airspeedFault = False, pressureFault = False\<rparr>"
  "telemetryOpen (logger (started now0 now1 draws))"
  "telemetryLog (logger (started now0 now1 draws)) = []"
  by (simp_all add: started_def sm_initialize_def lg_initialize_def SystemMonitor_new_def
      FaultHandler_new_def fh_initialize_def fc_initialize_def SensorProcessor_new_def
      sp_initialize_def TelemetryLogger_new_def Let_def split_beta)

lemma example_faulted_fields:
  "simulationTime example_faulted_monitor = 0"
  "faultHandler example_faulted_monitor = \<lparr>faults = [], criticalFaultCount = 0, warningFaultCount = 0\<rparr>"
  "currentPhase (flightController example_faulted_monitor) = PREFLIGHT"
  "controls (flightController example_faulted_monitor) =
     \<lparr>elevator = 0, aileron = 0, rudder = 0, throttle = 0\<rparr>"
  "sensorProcessor example_faulted_monitor =
     \<lparr>rng = sconst 0, altitudeHistory = [], airspeedHistory = [],
      altitudeFault = False, airspeedFault = True, pressureFault = False\<rparr>"
  "telemetryOpen (logger example_faulted_monitor)"
  "telemetryLog (logger example_faulted_monitor) = []"
  by (simp_all add: example_faulted_monitor_def example_monitor_def started_fields injectFault_def)

lemma example_env_fields:
  "now_update example_env = 1" "now_emergency example_env = 2"
  by (simp_all add: example_env_def)

lemma example_controller:
  "getCurrentPhase (tick_controller example_env example_faulted_monitor) = PREFLIGHT"
  "getControlSurfaces (tick_controller example_env example_faulted_monitor)
      = \<lparr>elevator = 0, aileron = 0, rudder = 0, throttle = 0\<rparr>"
  by (simp_all add: getCurrentPhase_def getControlSurfaces_def tick_controller_def update_def
      example_faulted_fields example_env_fields updateControlSurfaces_controls clamp_def)

lemma to_int_10: "to_int 10 = Inr 10"
  by (simp add: to_int_def INT_MAX_def)

lemma example_faulted_tick:
  "tick 10 (1 / 10) example_env example_faulted_monitor
   = Inr (tick_result (1 / 10) example_env example_faulted_monitor
      \<lparr>faults = [\<lparr>severity = CRITICAL, component = ''SensorProcessor'',
                  description = ''Sensor fault detected - invalid data'', resolved = False\<rparr>],
       criticalFaultCount = 1, warningFaultCount = 0\<rparr>)"
proof -
  have v: "valid (tick_sensors example_faulted_monitor) = False"
    unfolding tick_sensors_def by (simp add: processSensors_data example_faulted_fields)
  have cs: "checkSensorHealth (altitude (tick_sensors example_faulted_monitor))
        (airspeed (tick_sensors example_faulted_monitor))
        (pressure (tick_sensors example_faulted_monitor))
        (valid (tick_sensors example_faulted_monitor)) (faultHandler example_faulted_monitor)
      = Inr \<lparr>faults = [\<lparr>severity = CRITICAL, component = ''SensorProcessor'',
                  description = ''Sensor fault detected - invalid data'', resolved = False\<rparr>],
       criticalFaultCount = 1, warningFaultCount = 0\<rparr>"
    unfolding v example_faulted_fields
    by (simp add: checkSensorHealth_def reportFault_def ebind_def increment_def INT_MAX_def)
  show ?thesis
    unfolding tick_unfold cs example_controller
    by (simp add: ebind_def checkControlSystem_def report_when_def to_int_10)
qed

lemma emergency_override_at_end_of_tick_example:
  "tick 10 (1 / 10) example_env example_faulted_monitor
   = Inr (tick_result (1 / 10) example_env example_faulted_monitor
      \<lparr>faults = [\<lparr>severity = CRITICAL, component = ''SensorProcessor'',
                  description = ''Sensor fault detected - invalid data'', resolved = False\<rparr>],
       criticalFaultCount = 1, warningFaultCount = 0\<rparr>)
   \<and> \<not> isSystemSafe (faultHandler (tick_result (1 / 10) example_env example_faulted_monitor
      \<lparr>faults = [\<lparr>severity = CRITICAL, component = ''SensorProcessor'',
                  description = ''Sensor fault detected - invalid data'', resolved = False\<rparr>],
       criticalFaultCount = 1, warningFaultCount = 0\<rparr>))
   \<and> getCurrentPhase (flightController (tick_result (1 / 10) example_env example_faulted_monitor
      \<lparr>faults = [\<lparr>severity = CRITICAL, component = ''SensorProcessor'',
                  description = ''Sensor fault detected - invalid data'', resolved = False\<rparr>],
       criticalFaultCount = 1, warningFaultCount = 0\<rparr>)) = EMERGENCY"
proof -
  have u: "\<not> isSystemSafe (faultHandler (tick_result (1 / 10) example_env example_faulted_monitor
      \<lparr>faults = [\<lparr>severity = CRITICAL, component = ''SensorProcessor'',
                  description = ''Sensor fault detected - invalid data'', resolved = False\<rparr>],
       criticalFaultCount = 1, warningFaultCount = 0\<rparr>))"
    unfolding tick_result_fields by (simp add: isSystemSafe_def)
  from emergency_override_at_end_of_tick[OF example_faulted_tick] u example_faulted_tick
  show ?thesis by blast
qed

lemma example_running_fields:
  "simulationTime example_running_monitor = 0"
  "faultHandler example_running_monitor = \<lparr>faults = [], criticalFaultCount = 0, warningFaultCount = 0\<rparr>"
  "currentPhase (flightController example_running_monitor) = PREFLIGHT"
  "controls (flightController example_running_monitor) =
     \<lparr>elevator = 0, aileron = 0, rudder = 0, throttle = 0\<rparr>"
  "sensorProcessor example_running_monitor =
     \<lparr>rng = sconst 0, altitudeHistory = [], airspeedHistory = [],
      altitudeFault = False, airspeedFault = False, pressureFault = False\<rparr>"
  by (simp_all add: example_running_monitor_def example_monitor_def started_fields)

lemma example_clean_tick:
  "tick 10 (1 / 10) example_env example_running_monitor
   = Inr (tick_result (1 / 10) example_env example_running_monitor
      \<lparr>faults = [], criticalFaultCount = 0, warningFaultCount = 0\<rparr>)"
proof -
  have ts: "tick_sensors example_running_monitor =
       \<lparr>altitude = 0, airspeed = 0, pressure = 1013.25, temperature = 15,
        verticalSpeed = 0, valid = True\<rparr>"
    unfolding tick_sensors_def example_running_fields
    by (simp add: processSensors_def simulateAltitude_def simulateAirspeed_def
      simulatePressure_def simulateTemperature_def draw_def applyFilter_def
      FILTER_WINDOW_SIZE_def Let_def)
  have cs: "checkSensorHealth (altitude (tick_sensors example_running_monitor))
        (airspeed (tick_sensors example_running_monitor))
        (pressure (tick_sensors example_running_monitor))
        (valid (tick_sensors example_running_monitor)) (faultHandler example_running_monitor)
      = Inr \<lparr>faults = [], criticalFaultCount = 0, warningFaultCount = 0\<rparr>"
    unfolding ts example_running_fields
    by (simp add: checkSensorHealth_def report_when_def ebind_def isInRange_def)
  have z: "getControlSurfaces (tick_controller example_env example_running_monitor)
      = \<lparr>elevator = 0, aileron = 0, rudder = 0, throttle = 0\<rparr>"
    unfolding tick_controller_def getControlSurfaces_def
    by (simp add: update_def example_running_fields example_env_fields
        updateControlSurfaces_controls clamp_def)
  show ?thesis
    unfolding tick_unfold cs z
    by (simp add: ebind_def checkControlSystem_def report_when_def to_int_10)
qed

theorem no_fatal_fault_in_closed_loop_witness:
  "run (1 / 20) 10 [example_env, example_env] (started 0 0 (sconst 0))
   = Inr (tick_result (1 / 10) example_env example_running_monitor
            \<lparr>faults = [], criticalFaultCount = 0, warningFaultCount = 0\<rparr>
          \<lparr>logger := logEvent ''Flight simulation completed''
             (logger (tick_result (1 / 10) example_env example_running_monitor
            \<lparr>faults = [], criticalFaultCount = 0, warningFaultCount = 0\<rparr>))\<rparr>)
   \<and> FATAL \<notin> severity ` set (faults (faultHandler
        (tick_result (1 / 10) example_env example_running_monitor
            \<lparr>faults = [], criticalFaultCount = 0, warningFaultCount = 0\<rparr>
          \<lparr>logger := logEvent ''Flight simulation completed''
             (logger (tick_result (1 / 10) example_env example_running_monitor
            \<lparr>faults = [], criticalFaultCount = 0, warningFaultCount = 0\<rparr>))\<rparr>)))"
proof -
  have t: "tick 10 (1 / 10) example_env 
      (started 0 0 (sconst 0)\<lparr>logger := logEvent ''Flight simulation started''
          (logger (started 0 0 (sconst 0)))\<rparr>)
      = Inr (tick_result (1 / 10) example_env example_running_monitor
      \<lparr>faults = [], criticalFaultCount = 0, warningFaultCount = 0\<rparr>)"
    using example_clean_tick by (simp add: example_running_monitor_def example_monitor_def)
  have r: "run (1 / 20) 10 [example_env, example_env] (started 0 0 (sconst 0))
   = Inr (tick_result (1 / 10) example_env example_running_monitor
            \<lparr>faults = [], criticalFaultCount = 0, warningFaultCount = 0\<rparr>
          \<lparr>logger := logEvent ''Flight simulation completed''
             (logger (tick_result (1 / 10) example_env example_running_monitor
            \<lparr>faults = [], criticalFaultCount = 0, warningFaultCount = 0\<rparr>))\<rparr>)"
    unfolding run_def
    by (simp add: started_fields t ebind_def increment_def INT_MAX_def tick_result_fields
        example_running_fields)
  from no_fatal_fault_in_closed_loop[OF r] r show ?thesis by blast
qed

subsection \<open>A run up to the injected fault\<close>

lemma report_when_ok:
  assumes "criticalFaultCount fh < INT_MAX" "warningFaultCount fh < INT_MAX"
  shows "\<exists>fh'. report_when b sev c d fh = Inr fh'
          \<and> criticalFaultCount fh' = criticalFaultCount fh + (if b \<and> is_critical sev then 1 else 0)
          \<and> warningFaultCount fh' = warningFaultCount fh + (if b \<and> sev = WARNING then 1 else 0)"
  using assms
  by (cases sev)
     (auto simp: report_when_def reportFault_def ebind_def increment_def is_critical_def)

lemma checkSensorHealth_ok:
  assumes "criticalFaultCount fh < INT_MAX - 1" "warningFaultCount fh < INT_MAX - 3"
  shows "\<exists>fh'. checkSensorHealth alt spd prs v fh = Inr fh'
          \<and> criticalFaultCount fh' =
              criticalFaultCount fh + int (critical_reports (CheckSensorHealth alt spd prs v))
          \<and> warningFaultCount fh \<le> warningFaultCount fh'
          \<and> warningFaultCount fh' \<le> warningFaultCount fh + 3"
proof (cases v)
  case False
  from report_when_ok[of fh True CRITICAL "''SensorProcessor''"
      "''Sensor fault detected - invalid data''"] assms
  obtain fh' where "report_when True CRITICAL ''SensorProcessor''
      ''Sensor fault detected - invalid data'' fh = Inr fh'"
      "criticalFaultCount fh' = criticalFaultCount fh + 1"
      "warningFaultCount fh' = warningFaultCount fh"
    by (auto simp: is_critical_def)
  then show ?thesis using False by (simp add: checkSensorHealth_def report_when_def)
next
  case True
  from report_when_ok[of fh "\<not> isInRange alt (- 500) 15000" WARNING "''AltitudeSensor''"
      "''Altitude reading out of expected range''"] assms
  obtain fh1 where 1: "report_when (\<not> isInRange alt (- 500) 15000) WARNING ''AltitudeSensor''
      ''Altitude reading out of expected range'' fh = Inr fh1"
      "criticalFaultCount fh1 = criticalFaultCount fh"
      "warningFaultCount fh \<le> warningFaultCount fh1"
      "warningFaultCount fh1 \<le> warningFaultCount fh + 1"
    by (auto simp: is_critical_def split: if_splits)
  from report_when_ok[of fh1 "\<not> isInRange spd 0 300" WARNING "''AirspeedSensor''"
      "''Airspeed reading out of expected range''"] assms 1
  obtain fh2 where 2: "report_when (\<not> isInRange spd 0 300) WARNING ''AirspeedSensor''
      ''Airspeed reading out of expected range'' fh1 = Inr fh2"
      "criticalFaultCount fh2 = criticalFaultCount fh"
      "warningFaultCount fh \<le> warningFaultCount fh2"
      "warningFaultCount fh2 \<le> warningFaultCount fh + 2"
    by (auto simp: is_critical_def split: if_splits)
  from report_when_ok[of fh2 "\<not> isInRange prs 100 1100" WARNING "''PressureSensor''"
      "''Pressure reading out of expected range''"] assms 2
  obtain fh3 where 3: "report_when (\<not> isInRange prs 100 1100) WARNING ''PressureSensor''
      ''Pressure reading out of expected range'' fh2 = Inr fh3"
      "criticalFaultCount fh3 = criticalFaultCount fh"
      "warningFaultCount fh \<le> warningFaultCount fh3"
      "warningFaultCount fh3 \<le> warningFaultCount fh + 3"
    by (auto simp: is_critical_def split: if_splits)
  from report_when_ok[of fh3 "alt < 0 \<and> spd > 50" FATAL "''FlightSystem''"
      "''Critical: Negative altitude with high airspeed''"] assms 3
  obtain fh4 where 4: "report_when (alt < 0 \<and> spd > 50) FATAL ''FlightSystem''
      ''Critical: Negative altitude with high airspeed'' fh3 = Inr fh4"
      "criticalFaultCount fh4 = criticalFaultCount fh + (if alt < 0 \<and> spd > 50 then 1 else 0)"
      "warningFaultCount fh4 = warningFaultCount fh3"
    by (auto simp: is_critical_def split: if_splits)
  show ?thesis
    using True 1 2 3 4 by (simp add: checkSensorHealth_def ebind_def)
qed

lemma checkControlSystem_ok:
  assumes "criticalFaultCount fh < INT_MAX" "warningFaultCount fh < INT_MAX - 3"
  shows "\<exists>fh'. checkControlSystem e a r fh = Inr fh'
          \<and> criticalFaultCount fh' = criticalFaultCount fh
          \<and> warningFaultCount fh \<le> warningFaultCount fh'
          \<and> warningFaultCount fh' \<le> warningFaultCount fh + 3"
proof -
  from report_when_ok[of fh "\<bar>e\<bar> > 0.95" WARNING "''ElevatorControl''"
      "''Elevator near saturation limit''"] assms
  obtain fh1 where 1: "report_when (\<bar>e\<bar> > 0.95) WARNING ''ElevatorControl''
      ''Elevator near saturation limit'' fh = Inr fh1"
      "criticalFaultCount fh1 = criticalFaultCount fh"
      "warningFaultCount fh \<le> warningFaultCount fh1"
      "warningFaultCount fh1 \<le> warningFaultCount fh + 1"
    by (auto simp: is_critical_def split: if_splits)
  from report_when_ok[of fh1 "\<bar>a\<bar> > 0.95" WARNING "''AileronControl''"
      "''Aileron near saturation limit''"] assms 1
  obtain fh2 where 2: "report_when (\<bar>a\<bar> > 0.95) WARNING ''AileronControl''
      ''Aileron near saturation limit'' fh1 = Inr fh2"
      "criticalFaultCount fh2 = criticalFaultCount fh"
      "warningFaultCount fh \<le> warningFaultCount fh2"
      "warningFaultCount fh2 \<le> warningFaultCount fh + 2"
    by (auto simp: is_critical_def split: if_splits)
  from report_when_ok[of fh2 "\<bar>r\<bar> > 0.95" WARNING "''RudderControl''"
      "''Rudder near saturation limit''"] assms 2
  obtain fh3 where 3: "report_when (\<bar>r\<bar> > 0.95) WARNING ''RudderControl''
      ''Rudder near saturation limit'' fh2 = Inr fh3"
      "criticalFaultCount fh3 = criticalFaultCount fh"
      "warningFaultCount fh \<le> warningFaultCount fh3"
      "warningFaultCount fh3 \<le> warningFaultCount fh + 3"
    by (auto simp: is_critical_def split: if_splits)
  show ?thesis
    using 1 2 3 by (simp add: checkControlSystem_def ebind_def)
qed

lemma tick_result_flags:
  "airspeedFault (sensorProcessor (tick_result dt env sm fh)) =
     (if \<bar>simulationTime sm - 105.0\<bar> < dt then False
      else if \<bar>simulationTime sm - 100.0\<bar> < dt then True
      else airspeedFault (sensorProcessor sm))"
  "pressureFault (sensorProcessor (tick_result dt env sm fh)) =
     (if \<bar>simulationTime sm - 100.0\<bar> < dt \<or> \<bar>simulationTime sm - 105.0\<bar> < dt then False
      else pressureFault (sensorProcessor sm))"
  by (simp_all add: tick_result_def Let_def processSensors_state)

lemma tick_ok:
  assumes "criticalFaultCount (faultHandler sm) < INT_MAX - 1"
      and "warningFaultCount (faultHandler sm) < INT_MAX - 6"
      and "to_int updateRate = Inr r" "r \<noteq> 0"
  shows "\<exists>fh'. tick updateRate dt env sm = Inr (tick_result dt env sm fh')
          \<and> criticalFaultCount fh' = criticalFaultCount (faultHandler sm)
              + int (critical_reports (CheckSensorHealth (altitude (tick_sensors sm))
                   (airspeed (tick_sensors sm)) (pressure (tick_sensors sm))
                   (valid (tick_sensors sm))))
          \<and> warningFaultCount (faultHandler sm) \<le> warningFaultCount fh'
          \<and> warningFaultCount fh' \<le> warningFaultCount (faultHandler sm) + 6"
proof -
  from checkSensorHealth_ok[of "faultHandler sm" "altitude (tick_sensors sm)"
      "airspeed (tick_sensors sm)" "pressure (tick_sensors sm)" "valid (tick_sensors sm)"]
    assms(1,2)
  obtain fh1 where 1:
    "checkSensorHealth (altitude (tick_sensors sm)) (airspeed (tick_sensors sm))
       (pressure (tick_sensors sm)) (valid (tick_sensors sm)) (faultHandler sm) = Inr fh1"
    "criticalFaultCount fh1 = criticalFaultCount (faultHandler sm)
       + int (critical_reports (CheckSensorHealth (altitude (tick_sensors sm))
             (airspeed (tick_sensors sm)) (pressure (tick_sensors sm))
             (valid (tick_sensors sm))))"
    "warningFaultCount (faultHandler sm) \<le> warningFaultCount fh1"
    "warningFaultCount fh1 \<le> warningFaultCount (faultHandler sm) + 3"
    by auto
  have c1: "criticalFaultCount fh1 < INT_MAX"
    using 1(2) assms(1) by (simp split: if_splits)
  have w1: "warningFaultCount fh1 < INT_MAX - 3" using 1(4) assms(2) by simp
  from checkControlSystem_ok[OF c1 w1,
      of "elevator (getControlSurfaces (tick_controller env sm))"
         "aileron (getControlSurfaces (tick_controller env sm))"
         "rudder (getControlSurfaces (tick_controller env sm))"]
  obtain fh2 where 2:
    "checkControlSystem (elevator (getControlSurfaces (tick_controller env sm)))
       (aileron (getControlSurfaces (tick_controller env sm)))
       (rudder (getControlSurfaces (tick_controller env sm))) fh1 = Inr fh2"
    "criticalFaultCount fh2 = criticalFaultCount fh1"
    "warningFaultCount fh1 \<le> warningFaultCount fh2"
    "warningFaultCount fh2 \<le> warningFaultCount fh1 + 3"
    by auto
  have "tick updateRate dt env sm = Inr (tick_result dt env sm fh2)"
    unfolding tick_unfold 1(1) using 2(1) assms(3,4) by (simp add: ebind_def)
  then show ?thesis
    using 1 2 by (intro exI[of _ fh2]) simp
qed

lemma to_int_1: "to_int 1 = Inr 1"
  by (simp add: to_int_def INT_MAX_def)

lemma preflight_run_tick:
  assumes "preflight_run_inv k sf sm" "k \<le> 101"
  shows "\<exists>fh'. tick 1 1 env sm = Inr (tick_result 1 env sm fh')
          \<and> criticalFaultCount fh' = (if sf then 1 else 0)
          \<and> 0 \<le> warningFaultCount fh'
          \<and> warningFaultCount fh' \<le> 6 * int (Suc k)
          \<and> getCurrentPhase (tick_controller env sm) = PREFLIGHT
          \<and> throttle (controls (tick_controller env sm)) = 0"
proof -
  have c: "criticalFaultCount (faultHandler sm) < INT_MAX - 1"
    and w: "warningFaultCount (faultHandler sm) < INT_MAX - 6"
    using assms(1,2) by (simp_all add: preflight_run_inv_def INT_MAX_def)
  from tick_ok[OF c w to_int_1, of 1 env] obtain fh' where t:
    "tick 1 1 env sm = Inr (tick_result 1 env sm fh')"
    "criticalFaultCount fh' = criticalFaultCount (faultHandler sm)
              + int (critical_reports (CheckSensorHealth (altitude (tick_sensors sm))
                   (airspeed (tick_sensors sm)) (pressure (tick_sensors sm))
                   (valid (tick_sensors sm))))"
    "warningFaultCount (faultHandler sm) \<le> warningFaultCount fh'"
    "warningFaultCount fh' \<le> warningFaultCount (faultHandler sm) + 6"
    by auto
  have ai: "altitude_inv (sensorProcessor sm)" using assms(1) by (simp add: preflight_run_inv_def)
  have alt: "0 \<le> altitude (tick_sensors sm)"
    unfolding tick_sensors_def by (rule processSensors_altitude_inv(2)[OF ai])
  have v: "valid (tick_sensors sm) = (\<not> sf)"
    unfolding tick_sensors_def using assms(1)
    by (simp add: processSensors_data preflight_run_inv_def altitude_inv_def)
  have cr: "criticalFaultCount fh' = (if sf then 1 else 0)"
    using t(2) alt v assms(1) by (simp add: preflight_run_inv_def)
  have ph: "getCurrentPhase (tick_controller env sm) = PREFLIGHT"
    and th: "throttle (controls (tick_controller env sm)) = 0"
    using assms(1)
    by (simp_all add: getCurrentPhase_def tick_controller_def update_keeps_PREFLIGHT
        preflight_run_inv_def)
  show ?thesis
    using t(1,3,4) cr ph th assms(1) by (intro exI[of _ fh']) (simp add: preflight_run_inv_def)
qed

lemma preflight_run_step:
  assumes "preflight_run_inv k False sm" "k \<le> 100"
  shows "\<exists>sm1. tick 1 1 env sm = Inr sm1 \<and> preflight_run_inv (Suc k) (k = 100) sm1"
proof -
  from preflight_run_tick[OF assms(1), of env] assms(2) obtain fh' where t:
    "tick 1 1 env sm = Inr (tick_result 1 env sm fh')"
    "criticalFaultCount fh' = 0" "0 \<le> warningFaultCount fh'"
    "warningFaultCount fh' \<le> 6 * int (Suc k)"
    "getCurrentPhase (tick_controller env sm) = PREFLIGHT"
    "throttle (controls (tick_controller env sm)) = 0"
    by auto
  have tm: "simulationTime sm = real k" using assms(1) by (simp add: preflight_run_inv_def)
  have ne: "\<not> tick_emergency env sm fh'"
    using t(2) by (simp add: tick_emergency_def isSystemSafe_def)
  have ai: "altitude_inv (sensorProcessor (tick_result 1 env sm fh'))"
    using assms(1) processSensors_altitude_inv(1)[of "sensorProcessor sm" "simulationTime sm"]
    by (simp add: preflight_run_inv_def altitude_inv_def tick_result_fields processSensors_state)
  have i100: "(\<bar>real k - 100\<bar> < 1) = (k = 100)" by auto
  have i105: "\<not> \<bar>real k - 105\<bar> < 1" using assms(2) by auto
  have "preflight_run_inv (Suc k) (k = 100) (tick_result 1 env sm fh')"
    unfolding preflight_run_inv_def
    using assms(1) t ne ai i100 i105
    by (simp add: tick_result_fields tick_result_flags tm preflight_run_inv_def getCurrentPhase_def)
  with t(1) show ?thesis by blast
qed

lemma preflight_run_prefix:
  assumes "preflight_run_inv k False sm" "k + n \<le> 100"
  shows "\<exists>sm1. preflight_run_inv (k + n) False sm1
           \<and> run_loop 102 1 (replicate n env @ rest) (int k) sm
               = run_loop 102 1 rest (int (k + n)) sm1"
  using assms(1,2)
proof (induction n arbitrary: k sm)
  case 0
  then show ?case by auto
next
  case (Suc n)
  from Suc.prems(2) have k: "k < 100" by simp
  from preflight_run_step[OF Suc.prems(1), of env] k obtain sm1 where
    t: "tick 1 1 env sm = Inr sm1" and i: "preflight_run_inv (Suc k) False sm1"
    by auto
  from Suc.IH[OF i] Suc.prems(2) obtain sm2 where
    j: "preflight_run_inv (Suc k + n) False sm2"
    and r: "run_loop 102 1 (replicate n env @ rest) (int (Suc k)) sm1
             = run_loop 102 1 rest (int (Suc k + n)) sm2"
    by auto
  have tm: "simulationTime sm = real k" using Suc.prems(1) by (simp add: preflight_run_inv_def)
  have inc: "increment (int k) = Inr (int (Suc k))"
    using k by (simp add: increment_def INT_MAX_def)
  have "run_loop 102 1 (replicate (Suc n) env @ rest) (int k) sm
        = run_loop 102 1 (replicate n env @ rest) (int (Suc k)) sm1"
    using k by (simp add: tm t inc ebind_def)
  with r j show ?case by (intro exI[of _ sm2]) simp
qed

lemma example_running_inv: "preflight_run_inv 0 False example_running_monitor"
  by (simp add: preflight_run_inv_def example_running_fields altitude_inv_def
      example_running_monitor_def example_monitor_def started_fields)

text \<open>
  Claim C1.  The implication \<open>not safe implies phase = EMERGENCY\<close> holds of the controller
  at the end of every iteration, and the code breaks it in the emitted snapshot.  Run the
  monitor as \<^verbatim>\<open>main\<close> starts it for 102 seconds at 1 Hz, with all noise zero.  The loop
  injects the airspeed fault at \<open>t = 100\<close>; in the iteration at \<open>t = 101\<close> the telemetry
  is invalid, the handler becomes unsafe and \<^verbatim>\<open>triggerEmergency\<close> puts the controller in
  EMERGENCY; \<^verbatim>\<open>logData\<close>, called after that, is handed the phase that was read before
  the fault checks, and the row it writes for \<open>t = 101\<close>, the last of the run, says
  PREFLIGHT.
\<close>

theorem snapshot_shows_previous_phase_when_emergency_triggers:
  "\<not> isl (run 102 1 (replicate 102 example_env) (started 0 0 (sconst 0)))
   \<and> \<not> isSystemSafe (faultHandler (projr (run 102 1 (replicate 102 example_env) (started 0 0 (sconst 0)))))
   \<and> getCurrentPhase (flightController (projr (run 102 1 (replicate 102 example_env) (started 0 0 (sconst 0))))) = EMERGENCY
   \<and> snap_time (last (telemetryLog (logger (projr (run 102 1 (replicate 102 example_env) (started 0 0 (sconst 0))))))) = 101
   \<and> snap_phase (last (telemetryLog (logger (projr (run 102 1 (replicate 102 example_env) (started 0 0 (sconst 0))))))) = PREFLIGHT"
proof -
  have l: "replicate 102 example_env = replicate 100 example_env @ [example_env, example_env]"
    by (simp add: eval_nat_numeral)
  from preflight_run_prefix[OF example_running_inv, of 100 example_env "[example_env, example_env]"]
  obtain sm100 where i100: "preflight_run_inv 100 False sm100"
    and r100: "run_loop 102 1 (replicate 100 example_env @ [example_env, example_env]) 0
                 example_running_monitor
               = run_loop 102 1 [example_env, example_env] 100 sm100"
    by auto
  from preflight_run_step[OF i100, of example_env] obtain sm101 where
    t100: "tick 1 1 example_env sm100 = Inr sm101" and i101: "preflight_run_inv 101 True sm101"
    by auto
  from preflight_run_tick[OF i101, of example_env] obtain fh' where
    t101: "tick 1 1 example_env sm101 = Inr (tick_result 1 example_env sm101 fh')"
    and cr: "criticalFaultCount fh' = 1"
    and ph: "getCurrentPhase (tick_controller example_env sm101) = PREFLIGHT"
    by auto
  let ?sm = "tick_result 1 example_env sm101 fh'"
  have tm100: "simulationTime sm100 = 100" using i100 by (simp add: preflight_run_inv_def)
  have tm101: "simulationTime sm101 = 101" using i101 by (simp add: preflight_run_inv_def)
  have op: "telemetryOpen (logger sm101)" using i101 by (simp add: preflight_run_inv_def)
  have "run_loop 102 1 [example_env, example_env] 100 sm100 = Inr ?sm"
    by (simp add: tm100 tm101 t100 t101 ebind_def increment_def INT_MAX_def tick_result_fields)
  then have r: "(run 102 1 (replicate 102 example_env) (started 0 0 (sconst 0)))
      = Inr (?sm\<lparr>logger := logEvent ''Flight simulation completed'' (logger ?sm)\<rparr>)"
    using r100
    by (simp add: run_def l example_running_monitor_def example_monitor_def ebind_def
        tick_result_fields tm101)
  have em: "tick_emergency example_env sm101 fh'"
    using cr ph by (simp add: tick_emergency_def isSystemSafe_def)
  have "\<not> isSystemSafe (faultHandler ?sm)"
    using cr by (simp add: tick_result_fields isSystemSafe_def)
  moreover have "getCurrentPhase (flightController ?sm) = EMERGENCY"
    using em by (simp add: tick_result_fields getCurrentPhase_def triggerEmergency_def)
  moreover have "last (telemetryLog (logger ?sm)) = tick_snapshot example_env sm101 fh'"
    using op by (simp add: tick_result_fields)
  moreover have "snap_phase (tick_snapshot example_env sm101 fh') = PREFLIGHT"
    "snap_time (tick_snapshot example_env sm101 fh') = 101"
    using ph tm101 by (simp_all add: tick_snapshot_def)
  ultimately show ?thesis
    unfolding r by simp
qed

section \<open>The moving-average filter in double arithmetic\<close>

lemma round_binary64_eqI:
  assumes "2 powr of_int (e + 52) \<le> \<bar>x\<bar>" "\<bar>x\<bar> < 2 powr of_int (e + 53)"
      and "round_to_even (x / 2 powr of_int e) = m"
  shows "round_binary64 x = of_int m * 2 powr of_int e"
proof -
  have pos: "0 < \<bar>x\<bar>" using assms(1) by (smt (verit) powr_gt_zero)
  have "of_int (e + 52) \<le> log 2 \<bar>x\<bar>"
    using assms(1) pos by (simp add: le_log_iff)
  moreover have "log 2 \<bar>x\<bar> < of_int (e + 52) + 1"
    using assms(2) pos by (simp add: log_less_iff add.commute)
  ultimately have "\<lfloor>log 2 \<bar>x\<bar>\<rfloor> = e + 52"
    by (intro floor_unique) simp_all
  then show ?thesis
    using pos assms(3) by (simp add: round_binary64_def)
qed

lemma applyFilter_binary64_window:
  assumes "length h \<le> FILTER_WINDOW_SIZE"
  shows "applyFilter_binary64 h x = (window (h @ [x]), mean_binary64 (window (h @ [x])))"
proof -
  have "fst (applyFilter h x) = window (h @ [x])"
    using applyFilter_window[OF assms, of x] by simp
  moreover have "applyFilter_binary64 h x
      = (fst (applyFilter h x), mean_binary64 (fst (applyFilter h x)))"
    by (simp add: applyFilter_binary64_def applyFilter_def Let_def mean_binary64_def)
  ultimately show ?thesis by simp
qed

lemma filter_all_binary64_nth:
  assumes "length h \<le> FILTER_WINDOW_SIZE" "k < length xs"
  shows "filter_all_binary64 h xs ! k = mean_binary64 (window (h @ take (Suc k) xs))"
  using assms
proof (induction xs arbitrary: h k)
  case Nil
  then show ?case by simp
next
  case (Cons x xs)
  show ?case
  proof (cases k)
    case 0
    then show ?thesis using Cons.prems by (simp add: applyFilter_binary64_window)
  next
    case (Suc j)
    then have j: "j < length xs" using Cons.prems by simp
    have "filter_all_binary64 (window (h @ [x])) xs ! j
          = mean_binary64 (window (window (h @ [x]) @ take (Suc j) xs))"
      by (rule Cons.IH[OF length_window j])
    then show ?thesis
      using Cons.prems Suc by (simp add: applyFilter_binary64_window window_window_append)
  qed
qed

lemma round_to_even_of_int: "round_to_even (of_int m) = m"
  by (simp add: round_to_even_def)

lemma representable_of_int:
  assumes "\<bar>n\<bar> < 2 ^ 53"
  shows "representable (of_int n)"
proof (cases "n = 0")
  case True
  then show ?thesis by (simp add: representable_def round_binary64_def)
next
  case False
  define x :: real where "x = of_int n"
  define E where "E = \<lfloor>log 2 \<bar>x\<bar>\<rfloor>"
  have pos: "0 < \<bar>x\<bar>" using False by (simp add: x_def)
  have "\<bar>x\<bar> < 2 ^ 53"
  proof -
    have "real_of_int \<bar>n\<bar> < real_of_int (2 ^ 53)" using assms by (rule of_int_less_iff[THEN iffD2])
    then show ?thesis by (simp add: x_def)
  qed
  then have "\<bar>x\<bar> < 2 powr 53" by simp
  then have "log 2 \<bar>x\<bar> < 53" using pos by (simp add: log_less_iff)
  then have E: "E \<le> 52" unfolding E_def by (simp add: floor_le_iff)
  define j where "j = nat (52 - E)"
  have e: "E - 52 = - int j" using E by (simp add: j_def)
  have p: "(2::real) powr of_int (E - 52) = 1 / 2 ^ j"
    unfolding e by (simp add: powr_minus powr_realpow divide_inverse)
  have q: "x / (1 / 2 ^ j) = of_int (n * 2 ^ j)"
    by (simp add: x_def)
  have "round_binary64 x = of_int (round_to_even (x / 2 powr of_int (E - 52))) * 2 powr of_int (E - 52)"
    using pos by (simp add: round_binary64_def E_def Let_def)
  also have "\<dots> = of_int (n * 2 ^ j) * (1 / 2 ^ j)"
    unfolding p q round_to_even_of_int by (rule refl)
  also have "\<dots> = x" by (simp add: x_def)
  finally show ?thesis by (simp add: representable_def x_def)
qed

lemma mean_binary64_constant:
  assumes "representable v" "representable (2 * v)" "representable (3 * v)"
      and "representable (4 * v)" "representable (5 * v)"
  shows "mean_binary64 (replicate FILTER_WINDOW_SIZE v) = v"
proof -
  have r: "round_binary64 v = v" "round_binary64 (2 * v) = 2 * v" "round_binary64 (3 * v) = 3 * v"
    "round_binary64 (4 * v) = 4 * v" "round_binary64 (5 * v) = 5 * v"
    using assms by (simp_all add: representable_def)
  have l: "replicate FILTER_WINDOW_SIZE v = [v, v, v, v, v]"
    by (simp add: FILTER_WINDOW_SIZE_def eval_nat_numeral)
  have s1: "round_binary64 (0 + v) = v" using r(1) by simp
  have s2: "round_binary64 (v + v) = 2 * v" using r(2) by simp
  have s3: "round_binary64 (2 * v + v) = 3 * v"
  proof -
    have "2 * v + v = 3 * v" by simp
    then show ?thesis using r(3) by simp
  qed
  have s4: "round_binary64 (3 * v + v) = 4 * v"
  proof -
    have "3 * v + v = 4 * v" by simp
    then show ?thesis using r(4) by simp
  qed
  have s5: "round_binary64 (4 * v + v) = 5 * v"
  proof -
    have "4 * v + v = 5 * v" by simp
    then show ?thesis using r(5) by simp
  qed
  have "foldl (\<lambda>acc v. round_binary64 (acc + v)) 0 [v, v, v, v, v] = 5 * v"
    by (simp only: foldl.simps s1 s2 s3 s4 s5)
  then show ?thesis
    unfolding l mean_binary64_def using r(1) by simp
qed

lemma binary64_sum_1:
  "round_binary64 (0 + (9007199254740991 / 8796093022208)) = (9007199254740991 / 8796093022208)"
proof -
  have "round_binary64 (0 + (9007199254740991 / 8796093022208)) = of_int 9007199254740991 * 2 powr of_int (-43)"
    by (rule round_binary64_eqI) (simp_all add: round_to_even_def powr_neg_numeral)
  then show ?thesis by (simp add: powr_neg_numeral)
qed

lemma binary64_sum_2:
  "round_binary64 ((9007199254740991 / 8796093022208) + (9007199254740991 / 8796093022208)) = (18014398509481982 / 8796093022208)"
proof -
  have "round_binary64 ((9007199254740991 / 8796093022208) + (9007199254740991 / 8796093022208)) = of_int 9007199254740991 * 2 powr of_int (-42)"
    by (rule round_binary64_eqI) (simp_all add: round_to_even_def powr_neg_numeral)
  then show ?thesis by (simp add: powr_neg_numeral)
qed

lemma binary64_sum_3:
  "round_binary64 ((18014398509481982 / 8796093022208) + (9007199254740991 / 8796093022208)) = (27021597764222972 / 8796093022208)"
proof -
  have "round_binary64 ((18014398509481982 / 8796093022208) + (9007199254740991 / 8796093022208)) = of_int 6755399441055743 * 2 powr of_int (-41)"
    by (rule round_binary64_eqI) (simp_all add: round_to_even_def powr_neg_numeral)
  then show ?thesis by (simp add: powr_neg_numeral)
qed

lemma binary64_sum_4:
  "round_binary64 ((27021597764222972 / 8796093022208) + (9007199254740991 / 8796093022208)) = (36028797018963964 / 8796093022208)"
proof -
  have "round_binary64 ((27021597764222972 / 8796093022208) + (9007199254740991 / 8796093022208)) = of_int 9007199254740991 * 2 powr of_int (-41)"
    by (rule round_binary64_eqI) (simp_all add: round_to_even_def powr_neg_numeral)
  then show ?thesis by (simp add: powr_neg_numeral)
qed

lemma binary64_sum_5:
  "round_binary64 ((36028797018963964 / 8796093022208) + (9007199254740991 / 8796093022208)) = (45035996273704952 / 8796093022208)"
proof -
  have "round_binary64 ((36028797018963964 / 8796093022208) + (9007199254740991 / 8796093022208)) = of_int 5629499534213119 * 2 powr of_int (-40)"
    by (rule round_binary64_eqI) (simp_all add: round_to_even_def powr_neg_numeral)
  then show ?thesis by (simp add: powr_neg_numeral)
qed

lemma binary64_quotient:
  "round_binary64 ((45035996273704952 / 8796093022208) / 5) = (9007199254740990 / 8796093022208)"
proof -
  have "round_binary64 ((45035996273704952 / 8796093022208) / 5) = of_int 9007199254740990 * 2 powr of_int (-43)"
    by (rule round_binary64_eqI) (simp_all add: round_to_even_def powr_neg_numeral)
  then show ?thesis by (simp add: powr_neg_numeral)
qed

lemma mean_binary64_example:
  "mean_binary64 [(9007199254740991 / 8796093022208), (9007199254740991 / 8796093022208), (9007199254740991 / 8796093022208), (9007199254740991 / 8796093022208), (9007199254740991 / 8796093022208)] = (9007199254740990 / 8796093022208)"
proof -
  have "foldl (\<lambda>acc v. round_binary64 (acc + v)) 0 [(9007199254740991 / 8796093022208), (9007199254740991 / 8796093022208), (9007199254740991 / 8796093022208), (9007199254740991 / 8796093022208), (9007199254740991 / 8796093022208)] = (45035996273704952 / 8796093022208)"
    by (simp only: foldl.simps binary64_sum_1 binary64_sum_2 binary64_sum_3 binary64_sum_4
        binary64_sum_5)
  moreover have "real (length [(9007199254740991 / 8796093022208), (9007199254740991 / 8796093022208), (9007199254740991 / 8796093022208), (9007199254740991 / 8796093022208), (9007199254740991 / 8796093022208) :: real]) = 5" by simp
  moreover have "(0 / 10 :: real) = 0" by simp
  ultimately show ?thesis
    unfolding mean_binary64_def by (simp only: binary64_quotient)
qed

text \<open>
  Claim C6, as stated, fails in double arithmetic.  Take the double
  \<open>v = (2\<^sup>5\<^sup>3 - 1) / 2\<^sup>4\<^sup>3\<close>, just below \<open>1024\<close>.  The running sums of five copies are \<open>v\<close>,
  \<open>2v\<close>, then \<open>3v\<close>, \<open>4v\<close> and \<open>5v\<close> each rounded, and the rounded fifth of the last sum is
  \<open>(2\<^sup>5\<^sup>3 - 2) / 2\<^sup>4\<^sup>3\<close>, the double below \<open>v\<close>.
\<close>

theorem constant_input_not_exact_in_binary64:
  "representable (9007199254740991 / 8796093022208)
   \<and> filter_all_binary64 [] (replicate 5 (9007199254740991 / 8796093022208)) ! 4 = (9007199254740990 / 8796093022208)
   \<and> filter_all_binary64 [] (replicate 5 (9007199254740991 / 8796093022208)) ! 4 \<noteq> (9007199254740991 / 8796093022208)"
proof -
  have "round_binary64 (9007199254740991 / 8796093022208) = (9007199254740991 / 8796093022208)"
    using binary64_sum_1 by simp
  then have r: "representable (9007199254740991 / 8796093022208)" by (simp add: representable_def)
  have "filter_all_binary64 [] (replicate 5 (9007199254740991 / 8796093022208)) ! 4
        = mean_binary64 (window ([] @ take (Suc 4) (replicate 5 (9007199254740991 / 8796093022208))))"
    by (rule filter_all_binary64_nth) (simp_all add: FILTER_WINDOW_SIZE_def)
  also have "window ([] @ take (Suc 4) (replicate 5 (9007199254740991 / 8796093022208))) = [(9007199254740991 / 8796093022208), (9007199254740991 / 8796093022208), (9007199254740991 / 8796093022208), (9007199254740991 / 8796093022208), (9007199254740991 / 8796093022208)]"
    by (simp add: window_def FILTER_WINDOW_SIZE_def eval_nat_numeral)
  finally have e: "filter_all_binary64 [] (replicate 5 (9007199254740991 / 8796093022208)) ! 4 = (9007199254740990 / 8796093022208)"
    by (simp only: mean_binary64_example)
  show ?thesis
    unfolding e using r by simp
qed

lemma filter_all_constant:
  assumes "length h \<le> FILTER_WINDOW_SIZE" "FILTER_WINDOW_SIZE \<le> Suc k" "k < n"
  shows "filter_all h (replicate n v) ! k = v"
proof -
  have "filter_all h (replicate n v) ! k = mean (window (h @ take (Suc k) (replicate n v)))"
    using assms by (intro filter_all_nth) simp_all
  also have "take (Suc k) (replicate n v) = replicate (Suc k) v"
    using assms by (simp add: min_def)
  also have "window (h @ replicate (Suc k) v) = replicate FILTER_WINDOW_SIZE v"
    using assms by (intro window_constant_tail)
  also have "mean (replicate FILTER_WINDOW_SIZE v) = v"
    by (rule mean_replicate) (simp add: FILTER_WINDOW_SIZE_def)
  finally show ?thesis .
qed

lemma filter_all_binary64_constant:
  assumes "length h \<le> FILTER_WINDOW_SIZE" "FILTER_WINDOW_SIZE \<le> Suc k" "k < n"
      and "representable v" "representable (2 * v)" "representable (3 * v)"
      and "representable (4 * v)" "representable (5 * v)"
  shows "filter_all_binary64 h (replicate n v) ! k = v"
proof -
  have "filter_all_binary64 h (replicate n v) ! k
        = mean_binary64 (window (h @ take (Suc k) (replicate n v)))"
    using assms(1,3) by (intro filter_all_binary64_nth) simp_all
  also have "take (Suc k) (replicate n v) = replicate (Suc k) v"
    using assms(3) by (simp add: min_def)
  also have "window (h @ replicate (Suc k) v) = replicate FILTER_WINDOW_SIZE v"
    using assms(2) by (intro window_constant_tail)
  also have "mean_binary64 (replicate FILTER_WINDOW_SIZE v) = v"
    using assms(4-8) by (rule mean_binary64_constant)
  finally show ?thesis .
qed

text \<open>
  Claim C6, as amended.  The filter appends the sample, drops the oldest entry once the
  history holds more than five, and returns the mean of the history, over fewer than
  five samples at first; in double arithmetic the mean is the rounded quotient of the
  rounded left-to-right sum.  From any history of at most five entries, a constant input
  \<open>v\<close> gives the output \<open>v\<close> from the fifth sample on in exact arithmetic, and in double
  arithmetic when \<open>v\<close>, \<open>2v\<close>, \<open>3v\<close>, \<open>4v\<close> and \<open>5v\<close> are representable.
\<close>

theorem moving_average_filter:
  "applyFilter h x =
     (let h1 = h @ [x];
          h2 = (if length h1 > FILTER_WINDOW_SIZE then tl h1 else h1)
      in (h2, sum_list h2 / real (length h2)))
   \<and> FILTER_WINDOW_SIZE = 5
   \<and> applyFilter_binary64 h x = (fst (applyFilter h x), mean_binary64 (fst (applyFilter h x)))
   \<and> (length h \<le> FILTER_WINDOW_SIZE \<and> k < length xs \<longrightarrow>
        filter_all h xs ! k = mean (window (h @ take (Suc k) xs))
      \<and> filter_all_binary64 h xs ! k = mean_binary64 (window (h @ take (Suc k) xs)))
   \<and> (length h \<le> FILTER_WINDOW_SIZE \<and> FILTER_WINDOW_SIZE \<le> Suc k \<and> k < n \<longrightarrow>
        filter_all h (replicate n v) ! k = v)
   \<and> (length h \<le> FILTER_WINDOW_SIZE \<and> FILTER_WINDOW_SIZE \<le> Suc k \<and> k < n
        \<and> representable v \<and> representable (2 * v) \<and> representable (3 * v)
        \<and> representable (4 * v) \<and> representable (5 * v) \<longrightarrow>
        filter_all_binary64 h (replicate n v) ! k = v)"
proof -
  have a: "applyFilter h x =
     (let h1 = h @ [x];
          h2 = (if length h1 > FILTER_WINDOW_SIZE then tl h1 else h1)
      in (h2, sum_list h2 / real (length h2)))"
    by (simp add: applyFilter_def Let_def foldl_plus_sum_list)
  have b: "applyFilter_binary64 h x = (fst (applyFilter h x), mean_binary64 (fst (applyFilter h x)))"
    by (simp add: applyFilter_binary64_def applyFilter_def Let_def mean_binary64_def)
  have w: "FILTER_WINDOW_SIZE = 5" by (simp add: FILTER_WINDOW_SIZE_def)
  from a b w filter_all_nth[of h k xs] filter_all_binary64_nth[of h k xs]
    filter_all_constant[of h k n v] filter_all_binary64_constant[of h k n v]
  show ?thesis by blast
qed

theorem moving_average_filter_witness:
  "length [7, 8 :: real] \<le> FILTER_WINDOW_SIZE \<and> FILTER_WINDOW_SIZE \<le> Suc 5 \<and> (5 :: nat) < 6
   \<and> representable 3 \<and> representable (2 * 3) \<and> representable (3 * 3)
   \<and> representable (4 * 3) \<and> representable (5 * 3)
   \<and> filter_all [7, 8] (replicate 6 3) ! 5 = 3
   \<and> filter_all_binary64 [7, 8] (replicate 6 3) ! 5 = 3
   \<and> map snd [applyFilter [] 4, applyFilter [4] 8, applyFilter [4, 8] 6] = [4, 6, 6]"
proof -
  have h: "length [7, 8 :: real] \<le> FILTER_WINDOW_SIZE" "FILTER_WINDOW_SIZE \<le> Suc 5" "(5 :: nat) < 6"
    by (simp_all add: FILTER_WINDOW_SIZE_def)
  have r: "representable 3" "representable (2 * 3)" "representable (3 * 3)"
    "representable (4 * 3)" "representable (5 * 3)"
    using representable_of_int[of 3] representable_of_int[of 6] representable_of_int[of 9]
      representable_of_int[of 12] representable_of_int[of 15]
    by simp_all
  have e: "map snd [applyFilter [] 4, applyFilter [4] 8, applyFilter [4, 8] 6] = [4, 6, 6]"
    by (simp add: applyFilter_def FILTER_WINDOW_SIZE_def)
  from moving_average_filter[of "[7, 8]" 3 5 "[]" 6 3] h r e
  show ?thesis by blast
qed

end
